theory Spec2Isabelle
  imports Main "HOL-Library.Sublist"
begin

section \<open>The GSQL session client of tgCli\<close>

text \<open>
  The development follows package \<open>server\<close> of the repository: the session record
  \<open>GSQLSession\<close>, the negotiation \<open>login\<close> / \<open>attemptLogin\<close>, the streaming
  \<open>executeCommand\<close> and the loop \<open>startInteractiveSession\<close>, together with the cookie
  record \<open>GSQLCookie\<close> of package \<open>models\<close> and the markers of package \<open>constants\<close>.

  A Go \<open>string\<close> is a sequence of bytes, so it is a \<open>char list\<close> here (a \<open>char\<close> is
  one byte). The network, the terminal and the Go libraries the client calls are made explicit:
  standard output is a string that grows, the server is a state machine the client sends
  requests to, and the map iteration order of Go is an argument of \<open>login\<close>.
\<close>

section \<open>The Go library\<close>

subsection \<open>Package \<open>strings\<close>\<close>

text \<open>\<open>strings.Contains(s, substr)\<close>: some suffix of \<open>s\<close> starts with \<open>substr\<close>.\<close>

fun Contains :: "string \<Rightarrow> string \<Rightarrow> bool" where
  "Contains [] substr = (substr = [])"
| "Contains (c # s) substr = (prefix substr (c # s) \<or> Contains s substr)"

definition HasSuffix :: "string \<Rightarrow> string \<Rightarrow> bool" where
  "HasSuffix s suf = suffix suf s"

text \<open>
  \<open>strings.Split(s, sep)\<close> for a separator that is not empty: \<open>s\<close> is cut at every
  occurrence of \<open>sep\<close>, found from left to right without overlap, and the pieces between
  the occurrences are returned, so there is always at least one piece. \<open>split_from\<close>
  carries the piece being read, reversed. The client only splits at \<open>__,\<close>; for the empty
  separator (where Go cuts between the code points) the text is returned whole.
\<close>

function split_from :: "string \<Rightarrow> string \<Rightarrow> string \<Rightarrow> string list" where
  "split_from sep acc [] = [rev acc]"
| "split_from sep acc (c # s) =
     (if sep \<noteq> [] \<and> prefix sep (c # s)
      then rev acc # split_from sep [] (drop (length sep) (c # s))
      else split_from sep (c # acc) s)"
  by pat_completeness auto
termination
  by (relation "measure (\<lambda>(sep, acc, s). length s)") auto

definition Split :: "string \<Rightarrow> string \<Rightarrow> string list" where
  "Split s sep = split_from sep [] s"

text \<open>
  \<open>strings.TrimSpace(s)\<close> removes the leading and the trailing white space of \<open>s\<close>, as
  Unicode defines it (\<open>unicode.IsSpace\<close>). \<open>white_space\<close> lists the UTF-8 encodings of
  the white space code points: tab, line feed, vertical tab, form feed, carriage return,
  space, U+0085, U+00A0, U+1680, U+2000 to U+200A, U+2028, U+2029, U+202F, U+205F and
  U+3000. A byte sequence that is not the encoding of one of them (in particular an
  ill-formed one, which Go decodes as U+FFFD) stops the trimming.
\<close>

definition white_space :: "string list" where
  "white_space =
     [[CHR 0x09], [CHR 0x0A], [CHR 0x0B], [CHR 0x0C], [CHR 0x0D], [CHR 0x20],
      [CHR 0xC2, CHR 0x85], [CHR 0xC2, CHR 0xA0],
      [CHR 0xE1, CHR 0x9A, CHR 0x80],
      [CHR 0xE2, CHR 0x80, CHR 0x80], [CHR 0xE2, CHR 0x80, CHR 0x81],
      [CHR 0xE2, CHR 0x80, CHR 0x82], [CHR 0xE2, CHR 0x80, CHR 0x83],
      [CHR 0xE2, CHR 0x80, CHR 0x84], [CHR 0xE2, CHR 0x80, CHR 0x85],
      [CHR 0xE2, CHR 0x80, CHR 0x86], [CHR 0xE2, CHR 0x80, CHR 0x87],
      [CHR 0xE2, CHR 0x80, CHR 0x88], [CHR 0xE2, CHR 0x80, CHR 0x89],
      [CHR 0xE2, CHR 0x80, CHR 0x8A],
      [CHR 0xE2, CHR 0x80, CHR 0xA8], [CHR 0xE2, CHR 0x80, CHR 0xA9],
      [CHR 0xE2, CHR 0x80, CHR 0xAF], [CHR 0xE2, CHR 0x81, CHR 0x9F],
      [CHR 0xE3, CHR 0x80, CHR 0x80]]"

text \<open>The white space at the front of \<open>s\<close>, if \<open>s\<close> starts with one.\<close>

definition leading_space :: "string \<Rightarrow> string option" where
  "leading_space s = find (\<lambda>sp. prefix sp s) white_space"

definition trailing_space :: "string \<Rightarrow> string option" where
  "trailing_space s = find (\<lambda>sp. suffix sp s) white_space"

lemma white_space_nonempty: "sp \<in> set white_space \<Longrightarrow> 0 < length sp"
  by (auto simp: white_space_def)

lemma leading_space_shorter:
  assumes "leading_space s = Some sp"
  shows "length (drop (length sp) s) < length s"
proof -
  from assms have "sp \<in> set white_space" and "prefix sp s"
    by (auto simp: leading_space_def find_Some_iff)
  then show ?thesis
    using white_space_nonempty [of sp] by (auto simp: prefix_def)
qed

lemma trailing_space_shorter:
  assumes "trailing_space s = Some sp"
  shows "length (take (length s - length sp) s) < length s"
proof -
  from assms have "sp \<in> set white_space" and "suffix sp s"
    by (auto simp: trailing_space_def find_Some_iff)
  then show ?thesis
    using white_space_nonempty [of sp] by (auto simp: suffix_def)
qed

function TrimLeft :: "string \<Rightarrow> string" where
  "TrimLeft s =
     (case leading_space s of
        None \<Rightarrow> s
      | Some sp \<Rightarrow> TrimLeft (drop (length sp) s))"
  by pat_completeness auto
termination
  by (relation "measure length") (auto dest: leading_space_shorter)

declare TrimLeft.simps [simp del]

function TrimRight :: "string \<Rightarrow> string" where
  "TrimRight s =
     (case trailing_space s of
        None \<Rightarrow> s
      | Some sp \<Rightarrow> TrimRight (take (length s - length sp) s))"
  by pat_completeness auto
termination
  by (relation "measure length") (auto dest: trailing_space_shorter)

declare TrimRight.simps [simp del]

definition TrimSpace :: "string \<Rightarrow> string" where
  "TrimSpace s = TrimRight (TrimLeft s)"

subsection \<open>Package \<open>regexp\<close>\<close>

text \<open>
  The regular expressions the client needs: literals, the classes \<open>[a-b]\<close>, \<open>.\<close>
  (every character but the line feed), sequence, alternative and iteration. A lazy
  \<open>*?\<close> accepts what \<open>*\<close> accepts, and groups only record positions, so neither
  shows in a yes-or-no match. All literals of the client's pattern are ASCII and \<open>.\<close>
  only occurs iterated, so matching bytes agrees with Go's matching of code points.
\<close>

datatype regex =
    Fail
  | Eps
  | Lit char
  | Range char char
  | Dot
  | AnyByte
  | Seq regex regex
  | Alt regex regex
  | Star regex

fun nullable :: "regex \<Rightarrow> bool" where
  "nullable Fail = False"
| "nullable Eps = True"
| "nullable (Lit a) = False"
| "nullable (Range a b) = False"
| "nullable Dot = False"
| "nullable AnyByte = False"
| "nullable (Seq r s) = (nullable r \<and> nullable s)"
| "nullable (Alt r s) = (nullable r \<or> nullable s)"
| "nullable (Star r) = True"

text \<open>Sequence and alternative that drop the parts that can no longer match.\<close>

fun seq :: "regex \<Rightarrow> regex \<Rightarrow> regex" where
  "seq Fail s = Fail"
| "seq Eps s = s"
| "seq r s = Seq r s"

fun alt :: "regex \<Rightarrow> regex \<Rightarrow> regex" where
  "alt Fail s = s"
| "alt r Fail = r"
| "alt r s = Alt r s"

text \<open>\<open>deriv c r\<close> accepts \<open>w\<close> exactly when \<open>r\<close> accepts \<open>c # w\<close>.\<close>

fun deriv :: "char \<Rightarrow> regex \<Rightarrow> regex" where
  "deriv c Fail = Fail"
| "deriv c Eps = Fail"
| "deriv c (Lit a) = (if c = a then Eps else Fail)"
| "deriv c (Range a b) =
     (if (of_char a :: nat) \<le> of_char c \<and> (of_char c :: nat) \<le> of_char b then Eps else Fail)"
| "deriv c Dot = (if c = CHR 0x0A then Fail else Eps)"
| "deriv c AnyByte = Eps"
| "deriv c (Seq r s) =
     (if nullable r then alt (seq (deriv c r) s) (deriv c s) else seq (deriv c r) s)"
| "deriv c (Alt r s) = alt (deriv c r) (deriv c s)"
| "deriv c (Star r) = seq (deriv c r) (Star r)"

fun accepts :: "regex \<Rightarrow> string \<Rightarrow> bool" where
  "accepts r [] = nullable r"
| "accepts r (c # w) = accepts (deriv c r) w"

text \<open>\<open>Regexp.MatchString\<close>: some part of the text matches the pattern.\<close>

definition MatchString :: "regex \<Rightarrow> string \<Rightarrow> bool" where
  "MatchString re s = accepts (Seq (Star AnyByte) (Seq re (Star AnyByte))) s"

definition Plus :: "regex \<Rightarrow> regex" where
  "Plus r = Seq r (Star r)"

text \<open>\<open>\\d\<close> is \<open>[0-9]\<close> and \<open>\\s\<close> is \<open>[\\t\\n\\f\\r ]\<close>.\<close>

definition Digit :: regex where
  "Digit = Range CHR ''0'' CHR ''9''"

definition Space :: regex where
  "Space = Alt (Lit CHR 0x09) (Alt (Lit CHR 0x0A) (Alt (Lit CHR 0x0C)
             (Alt (Lit CHR 0x0D) (Lit CHR 0x20))))"

text \<open>
  The texts an expression stands for. \<open>repeated A\<close> are the texts made of any number of
  texts of \<open>A\<close>, one after the other.
\<close>

inductive_set repeated :: "string set \<Rightarrow> string set" for A :: "string set" where
  none: "[] \<in> repeated A"
| more: "u \<in> A \<Longrightarrow> v \<in> repeated A \<Longrightarrow> u @ v \<in> repeated A"

fun texts :: "regex \<Rightarrow> string set" where
  "texts Fail = {}"
| "texts Eps = {[]}"
| "texts (Lit a) = {[a]}"
| "texts (Range a b) = {[c] | c. (of_char a :: nat) \<le> of_char c \<and> (of_char c :: nat) \<le> of_char b}"
| "texts Dot = {[c] | c. c \<noteq> CHR 0x0A}"
| "texts AnyByte = {[c] | c. True}"
| "texts (Seq r s) = {u @ v | u v. u \<in> texts r \<and> v \<in> texts s}"
| "texts (Alt r s) = texts r \<union> texts s"
| "texts (Star r) = repeated (texts r)"

subsection \<open>Package \<open>unicode/utf8\<close>\<close>

text \<open>
  \<open>rune_len s\<close> is the number of bytes of the code point that \<open>s\<close> starts with, as
  \<open>utf8.DecodeRuneInString\<close> finds it, and \<open>None\<close> when \<open>s\<close> does not start with a
  well-formed encoding (Go then reads the code point U+FFFD of width 1): the first byte
  fixes the length and the range of the second byte, every further byte lies between
  \<open>0x80\<close> and \<open>0xBF\<close>.
\<close>

definition in_range :: "nat \<Rightarrow> nat \<Rightarrow> char \<Rightarrow> bool" where
  "in_range lo hi c = (lo \<le> of_char c \<and> (of_char c :: nat) \<le> hi)"

definition continuation :: "char \<Rightarrow> bool" where
  "continuation c = in_range 0x80 0xBF c"

fun rune_len :: "string \<Rightarrow> nat option" where
  "rune_len [] = None"
| "rune_len (a # s) =
     (if in_range 0x00 0x7F a then Some 1
      else if in_range 0xC2 0xDF a then
        (case s of
           b # _ \<Rightarrow> if continuation b then Some 2 else None
         | _ \<Rightarrow> None)
      else if in_range 0xE0 0xEF a then
        (case s of
           b # c # _ \<Rightarrow>
             if in_range (if a = CHR 0xE0 then 0xA0 else 0x80)
                  (if a = CHR 0xED then 0x9F else 0xBF) b \<and> continuation c
             then Some 3 else None
         | _ \<Rightarrow> None)
      else if in_range 0xF0 0xF4 a then
        (case s of
           b # c # d # _ \<Rightarrow>
             if in_range (if a = CHR 0xF0 then 0x90 else 0x80)
                  (if a = CHR 0xF4 then 0x8F else 0xBF) b \<and> continuation c \<and> continuation d
             then Some 4 else None
         | _ \<Rightarrow> None)
      else None)"

lemma rune_len_bounds:
  assumes "rune_len s = Some n"
  shows "0 < n \<and> n \<le> length s"
proof (cases s)
  case Nil
  with assms show ?thesis by simp
next
  case (Cons a r)
  with assms show ?thesis
    by (auto split: if_splits list.splits)
qed

text \<open>\<open>utf8.ValidString\<close>: the text is a sequence of well-formed encodings.\<close>

function ValidString :: "string \<Rightarrow> bool" where
  "ValidString s =
     (if s = [] then True
      else case rune_len s of
             None \<Rightarrow> False
           | Some n \<Rightarrow> ValidString (drop n s))"
  by pat_completeness auto
termination
  by (relation "measure length") (auto dest: rune_len_bounds)

declare ValidString.simps [simp del]

text \<open>
  What a string becomes when \<open>encoding/json\<close> writes it: ``String values encode as JSON
  strings coerced to valid UTF-8, replacing invalid bytes with the Unicode replacement
  rune'', U+FFFD, whose encoding is \<open>EF BF BD\<close>. Every byte that does not start a
  well-formed encoding is replaced on its own.
\<close>

definition replacement_rune :: string where
  "replacement_rune = [CHR 0xEF, CHR 0xBF, CHR 0xBD]"

function coerce_utf8 :: "string \<Rightarrow> string" where
  "coerce_utf8 s =
     (if s = [] then []
      else case rune_len s of
             None \<Rightarrow> replacement_rune @ coerce_utf8 (tl s)
           | Some n \<Rightarrow> take n s @ coerce_utf8 (drop n s))"
  by pat_completeness auto
termination
  by (relation "measure length") (auto dest: rune_len_bounds)

declare coerce_utf8.simps [simp del]

subsection \<open>Package \<open>encoding/base64\<close>\<close>

text \<open>
  \<open>base64.StdEncoding.EncodeToString\<close>: three bytes become four characters of the
  standard alphabet, six bits each, and a last group of one or two bytes is padded with
  \<open>=\<close>.
\<close>

definition encodeStd :: string where
  "encodeStd = ''ABCDEFGHIJKLMNOPQRSTUVWXYZabcdefghijklmnopqrstuvwxyz0123456789+/''"

fun EncodeToString :: "string \<Rightarrow> string" where
  "EncodeToString [] = []"
| "EncodeToString [a] =
     (let x = (of_char a :: nat)
      in [encodeStd ! (x div 4), encodeStd ! (x mod 4 * 16), CHR ''='', CHR ''=''])"
| "EncodeToString [a, b] =
     (let x = (of_char a :: nat); y = (of_char b :: nat)
      in [encodeStd ! (x div 4), encodeStd ! (x mod 4 * 16 + y div 16),
          encodeStd ! (y mod 16 * 4), CHR ''=''])"
| "EncodeToString (a # b # c # s) =
     (let x = (of_char a :: nat); y = (of_char b :: nat); z = (of_char c :: nat)
      in [encodeStd ! (x div 4), encodeStd ! (x mod 4 * 16 + y div 16),
          encodeStd ! (y mod 16 * 4 + z div 64), encodeStd ! (z mod 64)]
         @ EncodeToString s)"

subsection \<open>Errors\<close>

text \<open>
  A Go \<open>error\<close> is known to the client by where it comes from and by its text: the
  errors the client builds itself with \<open>fmt.Errorf\<close>, the errors of \<open>net/http\<close>, \<open>io\<close>
  and \<open>bufio\<close> (by their text), the errors of \<open>encoding/json\<close>, and \<open>io.EOF\<close>.
\<close>

datatype error =
    Errorf string
  | IOError string
  | JSONError string
  | EOF

text \<open>The method \<open>Error()\<close>, which \<open>%v\<close> prints.\<close>

fun error_text :: "error \<Rightarrow> string" where
  "error_text (Errorf m) = m"
| "error_text (IOError m) = m"
| "error_text (JSONError m) = m"
| "error_text EOF = ''EOF''"

abbreviation newline :: string where
  "newline \<equiv> [CHR 0x0A]"

subsection \<open>Package \<open>encoding/json\<close>: values and struct fields\<close>

text \<open>
  A JSON text denotes a value. Reading the text (the scanner of \<open>encoding/json\<close>) and
  writing it are left to the library, see \<open>env\<close> below; what the struct tags of the
  repository decide is how a value is stored into a struct and which value a struct
  is written as. A number keeps its literal.
\<close>

datatype json =
    JNull
  | JBool bool
  | JNumber string
  | JString string
  | JArray "json list"
  | JObject "(string \<times> json) list"

fun json_kind :: "json \<Rightarrow> string" where
  "json_kind JNull = ''null''"
| "json_kind (JBool b) = ''bool''"
| "json_kind (JNumber n) = ''number''"
| "json_kind (JString s) = ''string''"
| "json_kind (JArray xs) = ''array''"
| "json_kind (JObject ms) = ''object''"

definition cannot_unmarshal :: "json \<Rightarrow> string \<Rightarrow> error" where
  "cannot_unmarshal v target = JSONError (''json: cannot unmarshal '' @ json_kind v @ '' into Go '' @ target)"

text \<open>
  A key of an object names the struct field whose JSON name it equals when the case of
  letters is ignored. The names of the structs below stay different when case is ignored,
  so the preference Go gives to an exact match changes nothing. Go compares by Unicode
  simple case folding, under which U+017F (bytes \<open>C5 BF\<close>) is an \<open>s\<close> and U+212A (bytes
  \<open>E2 84 AA\<close>) is a \<open>k\<close>; \<open>name\<close> is an ASCII field name.
\<close>

definition upper :: "char \<Rightarrow> char" where
  "upper c = (if in_range 0x61 0x7A c then char_of (of_char c - (32::nat)) else c)"

function EqualFold :: "string \<Rightarrow> string \<Rightarrow> bool" where
  "EqualFold [] name = (name = [])"
| "EqualFold (a # key) [] = False"
| "EqualFold (a # key) (n # name) =
     (if in_range 0x00 0x7F a then upper a = upper n \<and> EqualFold key name
      else if prefix [CHR 0xC5, CHR 0xBF] (a # key)
        then upper n = CHR ''S'' \<and> EqualFold (drop 1 key) name
      else if prefix [CHR 0xE2, CHR 0x84, CHR 0xAA] (a # key)
        then upper n = CHR ''K'' \<and> EqualFold (drop 2 key) name
      else False)"
  by pat_completeness auto
termination
  by (relation "measure (\<lambda>(key, name). length key)") auto

text \<open>
  Storing a value into a field of type \<open>string\<close> or \<open>bool\<close>: \<open>null\<close> leaves the field as it
  is, a value of another kind is an \<open>UnmarshalTypeError\<close>.
\<close>

definition into_string :: "string \<Rightarrow> json \<Rightarrow> string \<Rightarrow> error + string" where
  "into_string field v old =
     (case v of
        JString x \<Rightarrow> Inr x
      | JNull \<Rightarrow> Inr old
      | _ \<Rightarrow> Inl (cannot_unmarshal v (''struct field '' @ field @ '' of type string'')))"

definition into_bool :: "string \<Rightarrow> json \<Rightarrow> bool \<Rightarrow> error + bool" where
  "into_bool field v old =
     (case v of
        JBool x \<Rightarrow> Inr x
      | JNull \<Rightarrow> Inr old
      | _ \<Rightarrow> Inl (cannot_unmarshal v (''struct field '' @ field @ '' of type bool'')))"

text \<open>
  The members of an object are stored one after the other, so of two members for one
  field the later one stays. After a type error Go goes on with the other members and
  returns the error at the end; both callers of the client drop the struct then, so the
  model returns the error alone.
\<close>

fun store_members :: "('c \<Rightarrow> string \<Rightarrow> json \<Rightarrow> error + 'c) \<Rightarrow> (string \<times> json) list \<Rightarrow> 'c \<Rightarrow> error + 'c" where
  "store_members store [] c = Inr c"
| "store_members store ((key, v) # ms) c =
     (case store c key v of
        Inl err \<Rightarrow> Inl err
      | Inr c' \<Rightarrow> store_members store ms c')"

text \<open>Storing a value into a struct: an object by its members, \<open>null\<close> changes nothing.\<close>

definition store_struct :: "string \<Rightarrow> ('c \<Rightarrow> string \<Rightarrow> json \<Rightarrow> error + 'c) \<Rightarrow> json \<Rightarrow> 'c \<Rightarrow> error + 'c" where
  "store_struct type store v c =
     (case v of
        JObject ms \<Rightarrow> store_members store ms c
      | JNull \<Rightarrow> Inr c
      | _ \<Rightarrow> Inl (cannot_unmarshal v (''value of type '' @ type)))"

text \<open>The keys of an object, in the order of its members.\<close>

fun object_keys :: "json \<Rightarrow> string list" where
  "object_keys (JObject ms) = map fst ms"
| "object_keys v = []"

section \<open>The repository\<close>

subsection \<open>Package \<open>models\<close>: the cookie\<close>

record GSQLCookie =
  ClientCommit :: string
  FromGsqlClient :: bool
  FromGraphStudio :: bool
  GShellTest :: bool
  FromGsqlServer :: bool
  ApplicationGatewayAffinity :: string
  ApplicationGatewayAffinityCORS :: string

text \<open>The zero value of the struct, which \<open>var updatedCookie models.GSQLCookie\<close> declares.\<close>

definition zero_GSQLCookie :: GSQLCookie where
  "zero_GSQLCookie =
     \<lparr>ClientCommit = [], FromGsqlClient = False, FromGraphStudio = False,
      GShellTest = False, FromGsqlServer = False,
      ApplicationGatewayAffinity = [], ApplicationGatewayAffinityCORS = []\<rparr>"

text \<open>
  \<open>json.Marshal\<close> of a cookie, by the tags of the struct: the fields in their order under
  their JSON names, the two affinity fields left out when empty (\<open>omitempty\<close>), every
  string coerced to valid UTF-8.
\<close>

definition omitempty :: "string \<Rightarrow> string \<Rightarrow> (string \<times> json) list" where
  "omitempty name s = (if s = [] then [] else [(name, JString (coerce_utf8 s))])"

definition Marshal_GSQLCookie :: "GSQLCookie \<Rightarrow> json" where
  "Marshal_GSQLCookie c =
     JObject
       ([(''clientCommit'', JString (coerce_utf8 (ClientCommit c))),
         (''fromGsqlClient'', JBool (FromGsqlClient c)),
         (''fromGraphStudio'', JBool (FromGraphStudio c)),
         (''gShellTest'', JBool (GShellTest c)),
         (''fromGsqlServer'', JBool (FromGsqlServer c))]
        @ omitempty ''ApplicationGatewayAffinity'' (ApplicationGatewayAffinity c)
        @ omitempty ''ApplicationGatewayAffinityCORS'' (ApplicationGatewayAffinityCORS c))"

text \<open>\<open>json.Unmarshal\<close> into a cookie: the field a key names receives the value.\<close>

definition store_GSQLCookie :: "GSQLCookie \<Rightarrow> string \<Rightarrow> json \<Rightarrow> error + GSQLCookie" where
  "store_GSQLCookie c key v =
     (if EqualFold key ''clientCommit'' then
        map_sum id (\<lambda>x. c\<lparr>ClientCommit := x\<rparr>)
          (into_string ''GSQLCookie.clientCommit'' v (ClientCommit c))
      else if EqualFold key ''fromGsqlClient'' then
        map_sum id (\<lambda>x. c\<lparr>FromGsqlClient := x\<rparr>)
          (into_bool ''GSQLCookie.fromGsqlClient'' v (FromGsqlClient c))
      else if EqualFold key ''fromGraphStudio'' then
        map_sum id (\<lambda>x. c\<lparr>FromGraphStudio := x\<rparr>)
          (into_bool ''GSQLCookie.fromGraphStudio'' v (FromGraphStudio c))
      else if EqualFold key ''gShellTest'' then
        map_sum id (\<lambda>x. c\<lparr>GShellTest := x\<rparr>)
          (into_bool ''GSQLCookie.gShellTest'' v (GShellTest c))
      else if EqualFold key ''fromGsqlServer'' then
        map_sum id (\<lambda>x. c\<lparr>FromGsqlServer := x\<rparr>)
          (into_bool ''GSQLCookie.fromGsqlServer'' v (FromGsqlServer c))
      else if EqualFold key ''ApplicationGatewayAffinity'' then
        map_sum id (\<lambda>x. c\<lparr>ApplicationGatewayAffinity := x\<rparr>)
          (into_string ''GSQLCookie.ApplicationGatewayAffinity'' v (ApplicationGatewayAffinity c))
      else if EqualFold key ''ApplicationGatewayAffinityCORS'' then
        map_sum id (\<lambda>x. c\<lparr>ApplicationGatewayAffinityCORS := x\<rparr>)
          (into_string ''GSQLCookie.ApplicationGatewayAffinityCORS'' v
             (ApplicationGatewayAffinityCORS c))
      else Inr c)"

definition Unmarshal_GSQLCookie :: "json \<Rightarrow> GSQLCookie \<Rightarrow> error + GSQLCookie" where
  "Unmarshal_GSQLCookie v c = store_struct ''models.GSQLCookie'' store_GSQLCookie v c"

subsection \<open>Package \<open>constants\<close>\<close>

definition GSQL_PATH :: string where
  "GSQL_PATH = ''/gsqlserver/gsql/''"

definition GSQL_SEPARATOR :: string where
  "GSQL_SEPARATOR = ''__GSQL__''"

definition GSQL_COOKIES :: string where
  "GSQL_COOKIES = ''__GSQL__COOKIES__''"

definition FILE_ENDPOINT :: string where
  "FILE_ENDPOINT = ''file''"

definition LOGIN_ENDPOINT :: string where
  "LOGIN_ENDPOINT = ''login''"

subsection \<open>The table of versions\<close>

text \<open>
  \<open>versionCommits\<close> is a Go map from version to commit. \<open>versionCommits_literal\<close> is the
  composite literal that builds it, its entries as the source lists them.
\<close>

definition versionCommits_literal :: "(string \<times> string) list" where
  "versionCommits_literal =
     [(''3.6.2'', ''31716aa98a0d4bd3bd7c5488dfc795a82dfee80d''),
      (''3.6.1'', ''b77b8fc6c2ceadd457571fc0a6ce1fb243e5f31c''),
      (''3.6.0'', ''b77b8fc6c2ceadd457571fc0a6ce1fb243e5f31c''),
      (''3.5.3'', ''7edb256d9750ab4451d27eef605e58e9adcedc7a''),
      (''3.5.0'', ''375e661f96298db4df018037949827e16ee8df60''),
      (''3.4.0'', ''421b0740e4a9f61d6eb0e03a4d2079de625a3ffe''),
      (''3.3.0'', ''90cc0512851acca2be10044878815bc414876f23''),
      (''3.2.2'', ''a31220261f440f61ebf3edfb1a84efba62939177''),
      (''3.2.1'', ''986e09c5d17d303659bed1342506a1c458462e30''),
      (''3.2.0'', ''f451d8a9a66c7ca0d8d4d9046f440f21097cdd03''),
      (''3.1.6'', ''71b39b25e198f690e28113e7f8874dab7b4559ec''),
      (''3.1.5'', ''f91c690f375ecd4d600eb126ca5a920a5c9ad0f4''),
      (''3.1.2'', ''3887cbd1d67b58ba6f88c50a069b679e20743984''),
      (''3.1.1'', ''375a182bc03b0c78b489e18a0d6af222916a48d2''),
      (''3.1.0'', ''e9d3c5d98e7229118309f6d4bbc9446bad7c4c3d''),
      (''3.0.5'', ''a9f902e5c552780589a15ba458adb48984359165''),
      (''3.0.0'', ''c90ec746a7e77ef5b108554be2133dfd1e1ab1b2'')]"

definition versionCommits :: "string \<rightharpoonup> string" where
  "versionCommits = map_of versionCommits_literal"

text \<open>
  A \<open>for k, v := range m\<close> over a map visits every entry once, in an order that Go leaves
  open (``the iteration order over maps is not specified and is not guaranteed to be the
  same from one iteration to the next''). \<open>range_order m kvs\<close> says that \<open>kvs\<close> is one of
  the orders in which a \<open>range\<close> may yield the entries of \<open>m\<close>.
\<close>

definition range_order :: "('k \<rightharpoonup> 'v) \<Rightarrow> ('k \<times> 'v) list \<Rightarrow> bool" where
  "range_order m kvs = (distinct (map fst kvs) \<and> map_of kvs = m)"

subsection \<open>The session and what surrounds it\<close>

text \<open>
  The session of the client. Its field \<open>Client\<close>, the HTTP client with a timeout of 60
  seconds, is the \<open>Do\<close> of the environment below.
\<close>

record GSQLSession =
  Host :: string
  User :: string
  Password :: string
  Version :: string
  Cookie :: GSQLCookie

record request =
  Method :: string
  URL :: string
  Body :: string
  Header :: "(string \<times> string) list"

text \<open>
  The body of a response is read with \<open>Read\<close>, which returns some bytes and possibly an
  error. \<open>reads\<close> are the bytes of the successive calls up to the call that returns the
  error \<open>ends\<close> (\<open>io.EOF\<close> at the regular end of the stream); the bytes returned together
  with the error are the last element. The timeout of the client bounds the whole
  exchange, so no body is read for ever.
\<close>

record reader =
  reads :: "string list"
  ends :: error

record response =
  resp_Header :: "string \<Rightarrow> string list"
  resp_Body :: reader

text \<open>\<open>Header.Get\<close>: the first value of the key, the empty string when there is none.\<close>

definition Get :: "(string \<Rightarrow> string list) \<Rightarrow> string \<Rightarrow> string" where
  "Get h key = (case h key of [] \<Rightarrow> [] | v # _ \<Rightarrow> v)"

text \<open>\<open>io.ReadAll\<close>: everything up to the end of the stream, or the error that came first.\<close>

definition ReadAll :: "reader \<Rightarrow> error + string" where
  "ReadAll r = (if ends r = EOF then Inr (concat (reads r)) else Inl (ends r))"

text \<open>
  What the client calls but the repository does not define. \<open>'w\<close> is the state of the
  world the client talks to (the server and the network): \<open>Do\<close> sends a request in a
  world and gives the response or the error, and the world afterwards.
  \<^item> \<open>url_error\<close>: the error of \<open>http.NewRequest\<close> for a URL it cannot parse;
  \<^item> \<open>Do\<close>: \<open>http.Client.Do\<close>;
  \<^item> \<open>json_text\<close>: the text \<open>json.Marshal\<close> writes for a value;
  \<^item> \<open>json_value\<close>: the value \<open>json.Unmarshal\<close> reads from a text, or its syntax error.
\<close>

record 'w env =
  url_error :: "string \<Rightarrow> error option"
  Do :: "'w \<Rightarrow> request \<Rightarrow> (error + response) \<times> 'w"
  json_text :: "json \<Rightarrow> string"
  json_value :: "string \<Rightarrow> error + json"

text \<open>\<open>json.Unmarshal(text, &c)\<close>: the text is read as a whole before anything is stored.\<close>

definition Unmarshal :: "'w env \<Rightarrow> string \<Rightarrow> (json \<Rightarrow> 'c \<Rightarrow> error + 'c) \<Rightarrow> 'c \<Rightarrow> error + 'c" where
  "Unmarshal env text store c =
     (case json_value env text of
        Inl err \<Rightarrow> Inl err
      | Inr v \<Rightarrow> store v c)"

text \<open>
  The state a function of the session works on: the session, the world, and what has
  been written to standard output so far.
\<close>

type_synonym 'w state = "GSQLSession \<times> 'w \<times> string"

subsection \<open>\<open>attemptLogin\<close> and \<open>login\<close>\<close>

text \<open>The anonymous struct \<open>loginResp\<close> of \<open>attemptLogin\<close>.\<close>

record loginResp =
  IsClientCompatible :: bool
  Error :: bool
  Message :: string
  WelcomeMessage :: string

definition zero_loginResp :: loginResp where
  "zero_loginResp =
     \<lparr>IsClientCompatible = False, Error = False, Message = [], WelcomeMessage = []\<rparr>"

definition store_loginResp :: "loginResp \<Rightarrow> string \<Rightarrow> json \<Rightarrow> error + loginResp" where
  "store_loginResp r key v =
     (if EqualFold key ''isClientCompatible'' then
        map_sum id (\<lambda>x. r\<lparr>IsClientCompatible := x\<rparr>)
          (into_bool ''.isClientCompatible'' v (IsClientCompatible r))
      else if EqualFold key ''error'' then
        map_sum id (\<lambda>x. r\<lparr>Error := x\<rparr>) (into_bool ''.error'' v (Error r))
      else if EqualFold key ''message'' then
        map_sum id (\<lambda>x. r\<lparr>Message := x\<rparr>) (into_string ''.message'' v (Message r))
      else if EqualFold key ''welcomeMessage'' then
        map_sum id (\<lambda>x. r\<lparr>WelcomeMessage := x\<rparr>)
          (into_string ''.welcomeMessage'' v (WelcomeMessage r))
      else Inr r)"

definition Unmarshal_loginResp :: "json \<Rightarrow> loginResp \<Rightarrow> error + loginResp" where
  "Unmarshal_loginResp v r = store_struct ''struct'' store_loginResp v r"

text \<open>The request both functions send: they differ in the endpoint and in the body.\<close>

definition session_request :: "'w env \<Rightarrow> GSQLSession \<Rightarrow> string \<Rightarrow> string \<Rightarrow> request" where
  "session_request env s endpoint body =
     (let userPass = User s @ '':'' @ Password s;
          b64Val = EncodeToString userPass;
          cookieJSON = json_text env (Marshal_GSQLCookie (Cookie s))
      in \<lparr>Method = ''POST'', URL = Host s @ GSQL_PATH @ endpoint, Body = body,
          Header = [(''Content-Language'', ''en-US''),
                    (''Authorization'', ''Basic '' @ b64Val),
                    (''Content-Type'', ''application/x-www-form-urlencoded''),
                    (''Cookie'', cookieJSON),
                    (''User-Agent'', ''Java/1.8.0'')]\<rparr>)"

definition login_request :: "'w env \<Rightarrow> GSQLSession \<Rightarrow> request" where
  "login_request env s =
     session_request env s LOGIN_ENDPOINT (EncodeToString (User s @ '':'' @ Password s))"

text \<open>
  The part of \<open>attemptLogin\<close> after the body has been decoded: the answer of the function
  and the session and output it leaves.
\<close>

definition login_answer :: "'w env \<Rightarrow> string \<Rightarrow> response \<Rightarrow> loginResp \<Rightarrow> GSQLSession \<times> string \<Rightarrow> error option \<times> GSQLSession \<times> string" where
  "login_answer env version resp r = (\<lambda>(s, out).
     if IsClientCompatible r then
       if Error r \<and> User s \<noteq> ''__GSQL__secret'' then (Some (Errorf (Message r)), s, out)
       else
         let setCookie = Get (resp_Header resp) ''Set-Cookie'';
             s' = (if setCookie \<noteq> [] then
                     (case Unmarshal env setCookie Unmarshal_GSQLCookie zero_GSQLCookie of
                        Inr updatedCookie \<Rightarrow> s\<lparr>Cookie := updatedCookie\<rparr>
                      | Inl err \<Rightarrow> s)
                   else s)
         in (None, s', out @ WelcomeMessage r @ newline)
     else (Some (Errorf (''client not compatible with version '' @ version)), s, out))"

definition attemptLogin :: "'w env \<Rightarrow> string \<Rightarrow> 'w state \<Rightarrow> error option \<times> 'w state" where
  "attemptLogin env version = (\<lambda>(s, w, out).
     case url_error env (Host s @ GSQL_PATH @ LOGIN_ENDPOINT) of
       Some err \<Rightarrow> (Some err, s, w, out)
     | None \<Rightarrow>
        (case Do env w (login_request env s) of
           (Inl err, w') \<Rightarrow> (Some err, s, w', out)
         | (Inr resp, w') \<Rightarrow>
            (case ReadAll (resp_Body resp) of
               Inl err \<Rightarrow> (Some err, s, w', out)
             | Inr body \<Rightarrow>
                (case Unmarshal env body Unmarshal_loginResp zero_loginResp of
                   Inl err \<Rightarrow> (Some err, s, w', out)
                 | Inr r \<Rightarrow>
                    (case login_answer env version resp r (s, out) of
                       (res, s', out') \<Rightarrow> (res, s', w', out'))))))"

text \<open>The cookie \<open>login\<close> sets before it tries a commit.\<close>

definition login_cookie :: "string \<Rightarrow> GSQLCookie" where
  "login_cookie commit =
     \<lparr>ClientCommit = commit, FromGsqlClient = False, FromGraphStudio = False,
      GShellTest = True, FromGsqlServer = False,
      ApplicationGatewayAffinity = [], ApplicationGatewayAffinityCORS = []\<rparr>"

text \<open>
  \<open>login\<close>, for the order \<open>kvs\<close> in which the \<open>range\<close> over \<open>versionCommits\<close> yields the
  entries. Besides the error and the state it returns the entries \<open>attemptLogin\<close> was
  called for, in the order of the calls.
\<close>

fun login :: "'w env \<Rightarrow> (string \<times> string) list \<Rightarrow> 'w state \<Rightarrow> error option \<times> 'w state \<times> (string \<times> string) list" where
  "login env [] st = (Some (Errorf ''unable to establish compatible connection''), st, [])"
| "login env ((version, commit) # kvs) (s, w, out) =
     (case attemptLogin env version (s\<lparr>Cookie := login_cookie commit\<rparr>, w, out) of
        (None, s', w', out') \<Rightarrow> (None, (s'\<lparr>Version := version\<rparr>, w', out'), [(version, commit)])
      | (Some err, st') \<Rightarrow>
         (case login env kvs st' of
            (res, st'', tried) \<Rightarrow> (res, st'', (version, commit) # tried)))"

subsection \<open>\<open>executeCommand\<close>\<close>

text \<open>
  The pattern of a progress bar,
  \<^verbatim>\<open>\[.*?\]\s*([0-9]\d*|0)+%.*\(([1-9]\d*|0)\/([1-9]\d*|0)\)\<close>.
\<close>

definition progressRegex :: regex where
  "progressRegex =
     Seq (Lit CHR ''['') (Seq (Star Dot) (Seq (Lit CHR '']'') (Seq (Star Space)
    (Seq (Plus (Alt (Seq (Range CHR ''0'' CHR ''9'') (Star Digit)) (Lit CHR ''0'')))
    (Seq (Lit CHR ''%'') (Seq (Star Dot) (Seq (Lit CHR ''('')
    (Seq (Alt (Seq (Range CHR ''1'' CHR ''9'') (Star Digit)) (Lit CHR ''0''))
    (Seq (Lit CHR ''/'')
    (Seq (Alt (Seq (Range CHR ''1'' CHR ''9'') (Star Digit)) (Lit CHR ''0''))
         (Lit CHR '')'')))))))))))"

text \<open>
  The body of \<open>if n > 0\<close> in the loop of \<open>executeCommand\<close>: what one chunk \<open>data\<close> does to
  the session and to standard output.
\<close>

definition handle_chunk :: "'w env \<Rightarrow> string \<Rightarrow> GSQLSession \<times> string \<Rightarrow> GSQLSession \<times> string" where
  "handle_chunk env data = (\<lambda>(s, out).
     if \<not> Contains data GSQL_SEPARATOR then
       if MatchString progressRegex data then (s, out @ data)
       else (s, out @ TrimSpace data @ (if \<not> HasSuffix data newline then newline else []))
     else if Contains data GSQL_COOKIES then
       let parts = Split data ''__,'' in
       if length parts > 1 then
         (case Unmarshal env (parts ! 1) Unmarshal_GSQLCookie zero_GSQLCookie of
            Inr updatedCookie \<Rightarrow>
              (s\<lparr>Cookie := updatedCookie\<lparr>FromGsqlClient := True, FromGraphStudio := False,
                                          GShellTest := True, FromGsqlServer := True\<rparr>\<rparr>, out)
          | Inl err \<Rightarrow> (s, out))
       else (s, out)
     else (s, out))"

text \<open>
  The loop: every \<open>Read\<close> that returned bytes has them handled, and the \<open>Read\<close> that
  returned the error, the last one, ends the loop.
\<close>

fun read_loop :: "'w env \<Rightarrow> string list \<Rightarrow> GSQLSession \<times> string \<Rightarrow> GSQLSession \<times> string" where
  "read_loop env [] st = st"
| "read_loop env (data # rest) st =
     read_loop env rest (if data \<noteq> [] then handle_chunk env data st else st)"

definition file_request :: "'w env \<Rightarrow> GSQLSession \<Rightarrow> string \<Rightarrow> request" where
  "file_request env s command = session_request env s FILE_ENDPOINT command"

definition executeCommand :: "'w env \<Rightarrow> string \<Rightarrow> 'w state \<Rightarrow> error option \<times> 'w state" where
  "executeCommand env command = (\<lambda>(s, w, out).
     case url_error env (Host s @ GSQL_PATH @ FILE_ENDPOINT) of
       Some err \<Rightarrow> (Some err, s, w, out)
     | None \<Rightarrow>
        (case Do env w (file_request env s command) of
           (Inl err, w') \<Rightarrow> (Some err, s, w', out)
         | (Inr resp, w') \<Rightarrow>
            (case read_loop env (reads (resp_Body resp)) (s, out) of
               (s', out') \<Rightarrow> (None, s', w', out'))))"

subsection \<open>\<open>startInteractiveSession\<close>\<close>

text \<open>
  One turn of the loop after the prompt, for a line that \<open>ReadString\<close> returned without
  an error: the loop is left (\<open>Break\<close>) or goes on (\<open>Continue\<close>).
\<close>

datatype 'a turn = Break 'a | Continue 'a

definition handle_line :: "'w env \<Rightarrow> string \<Rightarrow> 'w state \<Rightarrow> 'w state turn" where
  "handle_line env line = (\<lambda>(s, w, out).
     let command = TrimSpace line in
     if command = ''Quit'' \<or> command = ''quit'' \<or> command = ''exit''
       then Break (s, w, out @ ''Goodbye!'' @ newline)
     else if command = [] then Continue (s, w, out)
     else (case executeCommand env command (s, w, out) of
             (None, st') \<Rightarrow> Continue st'
           | (Some err, s', w', out') \<Rightarrow>
               Continue (s', w', out' @ ''Error executing command: '' @ error_text err @ newline)))"

text \<open>
  The loop, for the results of the successive calls of \<open>ReadString\<close> on standard input,
  each a line and possibly an error. When the input has nothing more to give, every
  further call fails, the loop says so and asks again: it never returns, which is the
  result \<open>None\<close>.
\<close>

fun startInteractiveSession :: "'w env \<Rightarrow> (string \<times> error option) list \<Rightarrow> 'w state \<Rightarrow> 'w state option" where
  "startInteractiveSession env [] st = None"
| "startInteractiveSession env ((line, Some err) # input) (s, w, out) =
     startInteractiveSession env input
       (s, w, out @ ''GSQL > '' @ ''Error reading input: '' @ error_text err @ newline)"
| "startInteractiveSession env ((line, None) # input) (s, w, out) =
     (case handle_line env line (s, w, out @ ''GSQL > '') of
        Break st' \<Rightarrow> Some st'
      | Continue st' \<Rightarrow> startInteractiveSession env input st')"

subsection \<open>What the claims speak of\<close>

text \<open>
  A server that rejects every version: whatever it is sent, in whatever state, it
  answers, the body arrives whole, and the body says that the client is not compatible.
\<close>

definition rejects_every_version :: "'w env \<Rightarrow> bool" where
  "rejects_every_version env =
     (\<forall>w req. \<exists>resp w' body r.
        Do env w req = (Inr resp, w') \<and> ReadAll (resp_Body resp) = Inr body
        \<and> Unmarshal env body Unmarshal_loginResp zero_loginResp = Inr r
        \<and> \<not> IsClientCompatible r)"

text \<open>
  A chunk that announces a cookie and in which the code finds none: it contains the
  separator and the marker, and either it has no delimiter \<open>__,\<close>, so that it is one
  piece, or its second piece, which is the one the code reads, does not decode to a
  cookie.
\<close>

definition malformed_update :: "'w env \<Rightarrow> string \<Rightarrow> bool" where
  "malformed_update env data =
     (Contains data GSQL_SEPARATOR \<and> Contains data GSQL_COOKIES
      \<and> (length (Split data ''__,'') \<le> 1
           \<or> isl (Unmarshal env (Split data ''__,'' ! 1) Unmarshal_GSQLCookie zero_GSQLCookie)))"

text \<open>The client's own flags are set: the cookie says it comes from the GSQL client and
  has passed the GSQL server.\<close>

definition asserted :: "GSQLSession \<Rightarrow> bool" where
  "asserted s = (FromGsqlClient (Cookie s) \<and> FromGsqlServer (Cookie s))"

text \<open>
  A chunk with the cookie marker, in its parts: the text before the marker, the marker
  with its delimiter (the marker ends with the first two characters of \<open>__,\<close>), the
  payload and the rest of the chunk.
\<close>

definition cookie_chunk :: "string \<Rightarrow> string \<Rightarrow> string \<Rightarrow> string" where
  "cookie_chunk pre payload rest = pre @ GSQL_COOKIES @ '','' @ payload @ rest"

text \<open>
  The delimiter of the marker is the first \<open>__,\<close> of the chunk, and the payload runs to the
  next \<open>__,\<close> or to the end of the chunk.
\<close>

definition delimited :: "string \<Rightarrow> string \<Rightarrow> string \<Rightarrow> bool" where
  "delimited pre payload rest =
     (\<not> Contains pre ''__,'' \<and> \<not> Contains payload ''__,'' \<and> (rest = [] \<or> prefix ''__,'' rest))"

section \<open>Mock servers\<close>

text \<open>
  The tests of the repository run the session against \<open>httptest\<close> servers that answer
  from a script. \<open>mock_env answer\<close> is such a server: its state is the number of requests
  it has seen, and it answers request number \<open>n\<close> with \<open>answer n\<close>. The client's side of
  the environment writes JSON compactly (\<open>compact\<close>, right for strings with nothing to
  escape) and reads the texts of \<open>mock_texts\<close>, the ones the mock servers send.
\<close>

fun join :: "string \<Rightarrow> string list \<Rightarrow> string" where
  "join sep [] = []"
| "join sep [x] = x"
| "join sep (x # y # xs) = x @ sep @ join sep (y # xs)"

definition quoted :: "string \<Rightarrow> string" where
  "quoted s = [CHR 0x22] @ s @ [CHR 0x22]"

primrec compact :: "json \<Rightarrow> string" where
  "compact JNull = ''null''"
| "compact (JBool b) = (if b then ''true'' else ''false'')"
| "compact (JNumber n) = n"
| "compact (JString s) = quoted s"
| "compact (JArray vs) = ''['' @ join '','' (map compact vs) @ '']''"
| "compact (JObject ms) =
     ''{'' @ join '','' (map (\<lambda>(key, text). quoted key @ '':'' @ text)
                          (map (map_prod id compact) ms)) @ ''}''"

definition incompatible_text :: string where
  "incompatible_text =
     ''{\"isClientCompatible\":false,\"error\":false,\"message\":\"Client not compatible\"}''"

definition rejected_text :: string where
  "rejected_text =
     ''{\"isClientCompatible\":true,\"error\":true,\"message\":\"Invalid credentials\"}''"

definition welcome_text :: string where
  "welcome_text =
     ''{\"isClientCompatible\":true,\"error\":false,\"message\":\"Login successful\",\"welcomeMessage\":\"Welcome to GSQL\"}''"

definition cookie_text :: string where
  "cookie_text = ''{\"clientCommit\":\"test123\",\"fromGsqlClient\":true}''"

definition update_text :: string where
  "update_text =
     ''{\"clientCommit\":\"updated123\",\"fromGsqlClient\":false,\"fromGsqlServer\":false}''"

definition inner_text :: string where
  "inner_text = ''{\"clientCommit\":\"a__,b\"}''"

definition session_cookie_text :: string where
  "session_cookie_text =
     ''{\"clientCommit\":\"abc123\",\"fromGsqlClient\":false,\"fromGraphStudio\":false,\"gShellTest\":true,\"fromGsqlServer\":false}''"

definition mock_texts :: "(string \<times> json) list" where
  "mock_texts =
     [(incompatible_text,
       JObject [(''isClientCompatible'', JBool False), (''error'', JBool False),
                (''message'', JString ''Client not compatible'')]),
      (rejected_text,
       JObject [(''isClientCompatible'', JBool True), (''error'', JBool True),
                (''message'', JString ''Invalid credentials'')]),
      (welcome_text,
       JObject [(''isClientCompatible'', JBool True), (''error'', JBool False),
                (''message'', JString ''Login successful''),
                (''welcomeMessage'', JString ''Welcome to GSQL'')]),
      (cookie_text,
       JObject [(''clientCommit'', JString ''test123''), (''fromGsqlClient'', JBool True)]),
      (update_text,
       JObject [(''clientCommit'', JString ''updated123''), (''fromGsqlClient'', JBool False),
                (''fromGsqlServer'', JBool False)]),
      (session_cookie_text,
       JObject [(''clientCommit'', JString ''abc123''), (''fromGsqlClient'', JBool False),
                (''fromGraphStudio'', JBool False), (''gShellTest'', JBool True),
                (''fromGsqlServer'', JBool False)]),
      (inner_text, JObject [(''clientCommit'', JString ''a__,b'')])]"

definition mock_json_value :: "string \<Rightarrow> error + json" where
  "mock_json_value text =
     (case map_of mock_texts text of
        Some v \<Rightarrow> Inr v
      | None \<Rightarrow> Inl (JSONError ''invalid character looking for beginning of value''))"

definition mock_env :: "(nat \<Rightarrow> error + response) \<Rightarrow> nat env" where
  "mock_env answer =
     \<lparr>url_error = (\<lambda>url. None), Do = (\<lambda>n req. (answer n, Suc n)),
      json_text = compact, json_value = mock_json_value\<rparr>"

text \<open>A response without headers whose body arrives in the given reads.\<close>

definition streamed :: "string list \<Rightarrow> error \<Rightarrow> response" where
  "streamed chunks err =
     \<lparr>resp_Header = (\<lambda>key. []), resp_Body = \<lparr>reads = chunks, ends = err\<rparr>\<rparr>"

text \<open>A response with a \<open>Set-Cookie\<close> header.\<close>

definition with_cookie :: "string \<Rightarrow> response \<Rightarrow> response" where
  "with_cookie text resp =
     resp\<lparr>resp_Header := (\<lambda>key. if key = ''Set-Cookie'' then [text] else resp_Header resp key)\<rparr>"

text \<open>The session of the tests.\<close>

definition test_session :: GSQLSession where
  "test_session =
     \<lparr>Host = ''http://127.0.0.1:14240'', User = ''testuser'', Password = ''testpass'',
      Version = [],
      Cookie = \<lparr>ClientCommit = ''abc123'', FromGsqlClient = False, FromGraphStudio = False,
                GShellTest = True, FromGsqlServer = False,
                ApplicationGatewayAffinity = [], ApplicationGatewayAffinityCORS = []\<rparr>\<rparr>"

text \<open>A chunk that carries a new cookie, as the server of the tests sends it.\<close>

definition update_chunk :: string where
  "update_chunk = ''__GSQL__COOKIES__,'' @ update_text"

definition broken_chunk :: string where
  "broken_chunk = ''__GSQL__COOKIES__,{\"clientCommit\":''"

text \<open>
  Chunks in which the code does not read the cookie that follows the marker: one with
  another control line after the cookie, one with a control line before the marker, and
  one whose cookie has \<open>__,\<close> inside a string. In the last chunk a cookie stands between
  two earlier \<open>__,\<close> and the text after the marker is cut short. A chunk with the marker
  alone is what a read leaves when its buffer ends there.
\<close>

definition trailing_chunk :: string where
  "trailing_chunk = update_chunk @ newline @ ''__GSQL__RETURN__CODE__,0'' @ newline"

definition leading_chunk :: string where
  "leading_chunk = ''__GSQL__RETURN__CODE__,0'' @ newline @ update_chunk"

definition inner_chunk :: string where
  "inner_chunk = ''__GSQL__COOKIES__,'' @ inner_text"

definition earlier_chunk :: string where
  "earlier_chunk = ''x__,'' @ update_text @ ''__,__GSQL__COOKIES__,{\"clientCommit\":''"

definition bare_chunk :: string where
  "bare_chunk = ''Command output__GSQL__COOKIES__''"

text \<open>
  The mock server of \<open>TestGSQLSessionLoginAllVersionsFail\<close>, which calls every client
  incompatible, and one that rejects the credentials at the first request and welcomes
  the client at every later one.
\<close>

definition incompatible_env :: "nat env" where
  "incompatible_env = mock_env (\<lambda>n. Inr (streamed [incompatible_text] EOF))"

definition rejected_first_env :: "nat env" where
  "rejected_first_env =
     mock_env (\<lambda>n. if n = 0 then Inr (streamed [rejected_text] EOF)
                    else Inr (streamed [welcome_text] EOF))"

text \<open>A mock server that answers every command with the same output.\<close>

definition echo_env :: "nat env" where
  "echo_env = mock_env (\<lambda>n. Inr (streamed [''Command output''] EOF))"

text \<open>
  Mock servers for single exchanges: one that sends output and then a new cookie, one
  whose \<open>Set-Cookie\<close> header at the login is cut short, one that sends a chunk with the
  marker and a cookie cut short, the server of \<open>TestGSQLSessionAttemptLogin\<close>, one that
  sends a progress bar and a line, and one whose body fails after some output.
\<close>

definition update_env :: "nat env" where
  "update_env = mock_env (\<lambda>n. Inr (streamed [''Command output'', update_chunk] EOF))"

definition broken_login_env :: "nat env" where
  "broken_login_env =
     mock_env (\<lambda>n. Inr (with_cookie ''{\"clientCommit\":'' (streamed [welcome_text] EOF)))"

definition broken_chunk_env :: "nat env" where
  "broken_chunk_env = mock_env (\<lambda>n. Inr (streamed [''Command output'', broken_chunk] EOF))"

definition cookie_login_env :: "nat env" where
  "cookie_login_env = mock_env (\<lambda>n. Inr (with_cookie cookie_text (streamed [welcome_text] EOF)))"

definition progress_env :: "nat env" where
  "progress_env =
     mock_env (\<lambda>n. Inr (streamed [''[==  ] 40% (2/5)'' @ newline, ''done'' @ newline] EOF))"

definition failing_env :: "nat env" where
  "failing_env = mock_env (\<lambda>n. Inr (streamed [''partial output''] (IOError ''unexpected EOF'')))"

text \<open>A mock server whose body arrives in one read.\<close>

definition single_env :: "string \<Rightarrow> nat env" where
  "single_env chunk = mock_env (\<lambda>n. Inr (streamed [chunk] EOF))"

text \<open>A cookie whose commit is the single byte \<open>FF\<close>, which is not UTF-8.\<close>

definition invalid_cookie :: GSQLCookie where
  "invalid_cookie = zero_GSQLCookie\<lparr>ClientCommit := [CHR 0xFF]\<rparr>"

section \<open>Properties\<close>

subsection \<open>Matching\<close>

text \<open>
  Matching by derivatives decides membership in the texts of the expression, and
  \<open>MatchString\<close> looks for a part of the text that is one of them.
\<close>

lemma nullable_texts: "nullable r \<longleftrightarrow> [] \<in> texts r"
  by (induction r) (auto intro: repeated.none)

lemma texts_seq: "texts (seq r s) = texts (Seq r s)"
  by (cases r) auto

lemma texts_alt: "texts (alt r s) = texts (Alt r s)"
  by (cases r; cases s) auto

lemma in_Seq: "u \<in> texts r \<Longrightarrow> v \<in> texts s \<Longrightarrow> u @ v \<in> texts (Seq r s)"
  by auto

lemma Cons_in_Seq:
  "c # w \<in> texts (Seq r s) \<longleftrightarrow>
     (\<exists>u v. w = u @ v \<and> c # u \<in> texts r \<and> v \<in> texts s) \<or> ([] \<in> texts r \<and> c # w \<in> texts s)"
proof
  assume "c # w \<in> texts (Seq r s)"
  then obtain u v where uv: "c # w = u @ v" "u \<in> texts r" "v \<in> texts s" by auto
  show "(\<exists>u v. w = u @ v \<and> c # u \<in> texts r \<and> v \<in> texts s) \<or> ([] \<in> texts r \<and> c # w \<in> texts s)"
  proof (cases u)
    case Nil
    with uv show ?thesis by simp
  next
    case (Cons a u')
    with uv have "w = u' @ v" "c # u' \<in> texts r" by simp_all
    with uv(3) show ?thesis by blast
  qed
next
  assume "(\<exists>u v. w = u @ v \<and> c # u \<in> texts r \<and> v \<in> texts s) \<or> ([] \<in> texts r \<and> c # w \<in> texts s)"
  then show "c # w \<in> texts (Seq r s)"
  proof
    assume "\<exists>u v. w = u @ v \<and> c # u \<in> texts r \<and> v \<in> texts s"
    then obtain u v where "w = u @ v" "c # u \<in> texts r" "v \<in> texts s" by blast
    then show ?thesis using in_Seq [of "c # u" r v s] by simp
  next
    assume "[] \<in> texts r \<and> c # w \<in> texts s"
    then show ?thesis using in_Seq [of "[]" r "c # w" s] by simp
  qed
qed

lemma Cons_in_repeated:
  "c # w \<in> repeated A \<longleftrightarrow> (\<exists>u v. w = u @ v \<and> c # u \<in> A \<and> v \<in> repeated A)"
proof
  assume "c # w \<in> repeated A"
  then show "\<exists>u v. w = u @ v \<and> c # u \<in> A \<and> v \<in> repeated A"
  proof (induction "c # w" arbitrary: w rule: repeated.induct)
    case (more u v)
    show ?case
    proof (cases u)
      case Nil
      with more show ?thesis by simp
    next
      case (Cons a u')
      with more.hyps(1,2,4) show ?thesis by auto
    qed
  qed
next
  assume "\<exists>u v. w = u @ v \<and> c # u \<in> A \<and> v \<in> repeated A"
  then obtain u v where "w = u @ v" "c # u \<in> A" "v \<in> repeated A" by blast
  then show "c # w \<in> repeated A"
    using repeated.more [of "c # u" A v] by simp
qed

lemma texts_deriv: "w \<in> texts (deriv c r) \<longleftrightarrow> c # w \<in> texts r"
proof (induction r arbitrary: w)
  case (Seq r s)
  have "w \<in> texts (deriv c (Seq r s)) \<longleftrightarrow>
          w \<in> texts (Seq (deriv c r) s) \<or> (nullable r \<and> w \<in> texts (deriv c s))"
    by (simp add: texts_alt texts_seq del: texts.simps(7))
  also have "\<dots> \<longleftrightarrow>
      (\<exists>u v. w = u @ v \<and> c # u \<in> texts r \<and> v \<in> texts s) \<or> ([] \<in> texts r \<and> c # w \<in> texts s)"
    using Seq.IH by (simp add: nullable_texts)
  also have "\<dots> \<longleftrightarrow> c # w \<in> texts (Seq r s)"
    by (rule Cons_in_Seq [symmetric])
  finally show ?case .
next
  case (Star r)
  have "w \<in> texts (deriv c (Star r)) \<longleftrightarrow>
          (\<exists>u v. w = u @ v \<and> u \<in> texts (deriv c r) \<and> v \<in> repeated (texts r))"
    by (simp add: texts_seq)
  also have "\<dots> \<longleftrightarrow> c # w \<in> texts (Star r)"
    using Star.IH by (simp add: Cons_in_repeated)
  finally show ?case .
qed (auto simp: texts_alt)

lemma accepts_texts: "accepts r w \<longleftrightarrow> w \<in> texts r"
  by (induction w arbitrary: r) (simp_all add: nullable_texts texts_deriv)

lemma all_repeated: "w \<in> repeated (texts AnyByte)"
proof (induction w)
  case Nil
  show ?case by (rule repeated.none)
next
  case (Cons c w)
  then show ?case using repeated.more [of "[c]" "texts AnyByte" w] by simp
qed

lemma MatchString_texts:
  "MatchString re s \<longleftrightarrow> (\<exists>u v w. s = u @ v @ w \<and> v \<in> texts re)"
proof
  assume "MatchString re s"
  then obtain u t where "s = u @ t" "t \<in> texts (Seq re (Star AnyByte))"
    by (auto simp: MatchString_def accepts_texts)
  then show "\<exists>u v w. s = u @ v @ w \<and> v \<in> texts re" by auto
next
  assume "\<exists>u v w. s = u @ v @ w \<and> v \<in> texts re"
  then obtain u v w where s: "s = u @ v @ w" and v: "v \<in> texts re" by blast
  have "w \<in> texts (Star AnyByte)" "u \<in> texts (Star AnyByte)"
    using all_repeated by simp_all
  with v have "u @ (v @ w) \<in> texts (Seq (Star AnyByte) (Seq re (Star AnyByte)))"
    by (intro in_Seq)
  with s show "MatchString re s"
    by (simp add: MatchString_def accepts_texts del: texts.simps)
qed

subsection \<open>Trimming\<close>

lemma HasSuffix_rev: "HasSuffix s suf = prefix (rev suf) (rev s)"
  by (simp add: HasSuffix_def suffix_to_prefix)

lemma TrimRight_no_trailing_space: "trailing_space (TrimRight s) = None"
proof (induction s rule: TrimRight.induct)
  case (1 s)
  show ?case
  proof (cases "trailing_space s")
    case None
    then show ?thesis by (simp add: TrimRight.simps)
  next
    case (Some sp)
    with "1.IH" show ?thesis by (simp add: TrimRight.simps)
  qed
qed

lemma TrimSpace_no_newline: "\<not> HasSuffix (TrimSpace data) newline"
proof
  assume "HasSuffix (TrimSpace data) newline"
  then have "suffix newline (TrimRight (TrimLeft data))"
    by (simp add: HasSuffix_def TrimSpace_def)
  then have "trailing_space (TrimRight (TrimLeft data)) \<noteq> None"
    by (auto simp: trailing_space_def find_None_iff white_space_def)
  then show False
    by (simp add: TrimRight_no_trailing_space)
qed

subsection \<open>Cookies as JSON\<close>

lemma valid_coerce: "ValidString s \<Longrightarrow> coerce_utf8 s = s"
proof (induction s rule: coerce_utf8.induct)
  case (1 s)
  show ?case
  proof (cases "s = []")
    case True
    then show ?thesis by (simp add: coerce_utf8.simps)
  next
    case False
    with "1.prems" obtain n where n: "rune_len s = Some n" and rest: "ValidString (drop n s)"
      by (auto simp: ValidString.simps [of s] split: option.splits)
    with False "1.IH"(2) have "coerce_utf8 (drop n s) = drop n s" by simp
    with False n show ?thesis by (simp add: coerce_utf8.simps [of s])
  qed
qed

lemma coerce_nonempty: "s \<noteq> [] \<Longrightarrow> coerce_utf8 s \<noteq> []"
proof (cases "rune_len s")
  case None
  assume "s \<noteq> []"
  with None show ?thesis
    by (simp add: coerce_utf8.simps [of s] replacement_rune_def)
next
  case (Some n)
  assume "s \<noteq> []"
  moreover from Some have "0 < n" by (auto dest: rune_len_bounds)
  ultimately show ?thesis
    using Some by (simp add: coerce_utf8.simps [of s])
qed

lemma field_names:
  "EqualFold ''clientCommit'' ''clientCommit''"
  "EqualFold ''fromGsqlClient'' ''fromGsqlClient''"
  "EqualFold ''fromGraphStudio'' ''fromGraphStudio''"
  "EqualFold ''gShellTest'' ''gShellTest''"
  "EqualFold ''fromGsqlServer'' ''fromGsqlServer''"
  "EqualFold ''ApplicationGatewayAffinity'' ''ApplicationGatewayAffinity''"
  "EqualFold ''ApplicationGatewayAffinityCORS'' ''ApplicationGatewayAffinityCORS''"
  "\<not> EqualFold ''fromGsqlClient'' ''clientCommit''"
  "\<not> EqualFold ''fromGraphStudio'' ''clientCommit''"
  "\<not> EqualFold ''fromGraphStudio'' ''fromGsqlClient''"
  "\<not> EqualFold ''gShellTest'' ''clientCommit''"
  "\<not> EqualFold ''gShellTest'' ''fromGsqlClient''"
  "\<not> EqualFold ''gShellTest'' ''fromGraphStudio''"
  "\<not> EqualFold ''fromGsqlServer'' ''clientCommit''"
  "\<not> EqualFold ''fromGsqlServer'' ''fromGsqlClient''"
  "\<not> EqualFold ''fromGsqlServer'' ''fromGraphStudio''"
  "\<not> EqualFold ''fromGsqlServer'' ''gShellTest''"
  "\<not> EqualFold ''ApplicationGatewayAffinity'' ''clientCommit''"
  "\<not> EqualFold ''ApplicationGatewayAffinity'' ''fromGsqlClient''"
  "\<not> EqualFold ''ApplicationGatewayAffinity'' ''fromGraphStudio''"
  "\<not> EqualFold ''ApplicationGatewayAffinity'' ''gShellTest''"
  "\<not> EqualFold ''ApplicationGatewayAffinity'' ''fromGsqlServer''"
  "\<not> EqualFold ''ApplicationGatewayAffinityCORS'' ''clientCommit''"
  "\<not> EqualFold ''ApplicationGatewayAffinityCORS'' ''fromGsqlClient''"
  "\<not> EqualFold ''ApplicationGatewayAffinityCORS'' ''fromGraphStudio''"
  "\<not> EqualFold ''ApplicationGatewayAffinityCORS'' ''gShellTest''"
  "\<not> EqualFold ''ApplicationGatewayAffinityCORS'' ''fromGsqlServer''"
  "\<not> EqualFold ''ApplicationGatewayAffinityCORS'' ''ApplicationGatewayAffinity''"
  by (simp_all add: in_range_def upper_def)

lemma store_fields:
  "store_GSQLCookie c ''clientCommit'' (JString x) = Inr (c\<lparr>ClientCommit := x\<rparr>)"
  "store_GSQLCookie c ''fromGsqlClient'' (JBool b) = Inr (c\<lparr>FromGsqlClient := b\<rparr>)"
  "store_GSQLCookie c ''fromGraphStudio'' (JBool b) = Inr (c\<lparr>FromGraphStudio := b\<rparr>)"
  "store_GSQLCookie c ''gShellTest'' (JBool b) = Inr (c\<lparr>GShellTest := b\<rparr>)"
  "store_GSQLCookie c ''fromGsqlServer'' (JBool b) = Inr (c\<lparr>FromGsqlServer := b\<rparr>)"
  "store_GSQLCookie c ''ApplicationGatewayAffinity'' (JString x)
     = Inr (c\<lparr>ApplicationGatewayAffinity := x\<rparr>)"
  "store_GSQLCookie c ''ApplicationGatewayAffinityCORS'' (JString x)
     = Inr (c\<lparr>ApplicationGatewayAffinityCORS := x\<rparr>)"
  unfolding store_GSQLCookie_def
  by (simp_all only: field_names if_True if_False into_string_def into_bool_def json.case
      map_sum.simps id_apply)

lemma roundtrip_value:
  assumes "ValidString (ClientCommit c)" and "ValidString (ApplicationGatewayAffinity c)"
    and "ValidString (ApplicationGatewayAffinityCORS c)"
  shows "Unmarshal_GSQLCookie (Marshal_GSQLCookie c) zero_GSQLCookie = Inr c"
proof (cases c)
  case (fields commit client studio test server affinity cors)
  with assms have "coerce_utf8 commit = commit" "coerce_utf8 affinity = affinity"
    "coerce_utf8 cors = cors"
    by (simp_all add: valid_coerce)
  with fields show ?thesis
    by (simp add: Unmarshal_GSQLCookie_def Marshal_GSQLCookie_def store_struct_def omitempty_def
        store_fields zero_GSQLCookie_def)
qed

subsection \<open>Failed attempts\<close>

text \<open>
  An attempt that returns an error leaves the session and the output as they were, so
  a \<open>login\<close> that fails has tried every entry it was given and leaves the cookie it set
  for the last one.
\<close>

lemma login_answer_error:
  assumes "login_answer env version resp r (s, out) = (Some err, s', out')"
  shows "s' = s \<and> out' = out"
  using assms by (auto simp: login_answer_def Let_def split: if_splits)

lemma attemptLogin_error:
  assumes "attemptLogin env version (s, w, out) = (Some err, s', w', out')"
  shows "s' = s \<and> out' = out"
  using assms
  by (auto simp: attemptLogin_def split: option.splits sum.splits prod.splits
           dest: login_answer_error)

lemma login_error:
  assumes "login env kvs (s, w, out) = (Some err, (s', w', out'), tried)"
  shows "err = Errorf ''unable to establish compatible connection'' \<and> tried = kvs \<and> out' = out
         \<and> s' = s\<lparr>Cookie := (if kvs = [] then Cookie s else login_cookie (snd (last kvs)))\<rparr>"
  using assms
proof (induction kvs arbitrary: s w out tried)
  case Nil
  then show ?case by simp
next
  case (Cons kv kvs)
  obtain version commit where kv: "kv = (version, commit)" by (cases kv)
  obtain res s1 w1 out1 where a: "attemptLogin env version (s\<lparr>Cookie := login_cookie commit\<rparr>, w, out) = (res, s1, w1, out1)"
    by (metis prod_cases4)
  show ?case
  proof (cases res)
    case None
    with Cons.prems kv a show ?thesis by simp
  next
    case (Some e)
    with a have s1: "s1 = s\<lparr>Cookie := login_cookie commit\<rparr>" "out1 = out"
      using attemptLogin_error [of env version "s\<lparr>Cookie := login_cookie commit\<rparr>" w out e s1 w1 out1]
      by simp_all
    obtain res2 st2 tried2 where l: "login env kvs (s1, w1, out1) = (res2, st2, tried2)"
      by (metis prod_cases3)
    with Cons.prems kv a Some have "res2 = Some err" "st2 = (s', w', out')" "tried = kv # tried2"
      by auto
    with l Cons.IH [of s1 w1 out1 tried2] have "err = Errorf ''unable to establish compatible connection'' \<and> tried2 = kvs \<and> out' = out1
         \<and> s' = s1\<lparr>Cookie := (if kvs = [] then Cookie s1 else login_cookie (snd (last kvs)))\<rparr>"
      by simp
    with s1 \<open>tried = kv # tried2\<close> kv show ?thesis by auto
  qed
qed

lemma attemptLogin_decoded:
  assumes "url_error env (Host s @ GSQL_PATH @ LOGIN_ENDPOINT) = None"
    and "Do env w (login_request env s) = (Inr resp, w')"
    and "ReadAll (resp_Body resp) = Inr body"
    and "Unmarshal env body Unmarshal_loginResp zero_loginResp = Inr r"
  shows "attemptLogin env version (s, w, out) =
           (case login_answer env version resp r (s, out) of
              (res, s', out') \<Rightarrow> (res, s', w', out'))"
  using assms by (simp add: attemptLogin_def)

lemma rejected_attempt:
  assumes "rejects_every_version env"
  shows "fst (attemptLogin env version (s, w, out)) \<noteq> None"
proof -
  from assms obtain resp w' body r where
    "Do env w (login_request env s) = (Inr resp, w')" "ReadAll (resp_Body resp) = Inr body"
    "Unmarshal env body Unmarshal_loginResp zero_loginResp = Inr r" "\<not> IsClientCompatible r"
    unfolding rejects_every_version_def by blast
  then show ?thesis
    by (simp add: attemptLogin_def login_answer_def split: option.splits)
qed

lemma login_all_fail:
  assumes "\<And>version s w out. fst (attemptLogin env version (s, w, out)) \<noteq> None"
  shows "fst (login env kvs st) = Some (Errorf ''unable to establish compatible connection'')
         \<and> snd (snd (login env kvs st)) = kvs"
proof (induction kvs arbitrary: st)
  case Nil
  show ?case by simp
next
  case (Cons kv kvs)
  obtain version commit where kv: "kv = (version, commit)" by (cases kv)
  obtain s w out where st: "st = (s, w, out)" by (cases st) auto
  obtain res st1 where a: "attemptLogin env version (s\<lparr>Cookie := login_cookie commit\<rparr>, w, out) = (res, st1)"
    by (cases "attemptLogin env version (s\<lparr>Cookie := login_cookie commit\<rparr>, w, out)")
  with assms [of version "s\<lparr>Cookie := login_cookie commit\<rparr>" w out]
  obtain err where res: "res = Some err" by auto
  obtain res2 st2 tried where l: "login env kvs st1 = (res2, st2, tried)"
    by (cases "login env kvs st1") auto
  with Cons.IH [of st1]
  have "res2 = Some (Errorf ''unable to establish compatible connection'')" "tried = kvs"
    by simp_all
  with kv st a res l show ?case by simp
qed

subsection \<open>The order of the table\<close>

lemma distinct_versions: "distinct (map fst versionCommits_literal)"
  by (simp add: versionCommits_literal_def)

lemma range_order_literal: "range_order versionCommits versionCommits_literal"
  by (simp add: range_order_def versionCommits_def distinct_versions)

lemma range_order_length:
  assumes "range_order versionCommits kvs"
  shows "length kvs = 17"
proof -
  from assms have d: "distinct (map fst kvs)" and m: "map_of kvs = map_of versionCommits_literal"
    by (simp_all add: range_order_def versionCommits_def)
  have "length kvs = card (fst ` set kvs)"
    using d by (metis distinct_card length_map set_map)
  also have "\<dots> = card (dom (map_of kvs))"
    by (simp add: dom_map_of_conv_image_fst)
  also have "\<dots> = card (fst ` set versionCommits_literal)"
    by (simp add: m dom_map_of_conv_image_fst)
  also have "\<dots> = length versionCommits_literal"
    using distinct_versions by (metis distinct_card length_map set_map)
  also have "\<dots> = 17"
    by (simp add: versionCommits_literal_def)
  finally show ?thesis .
qed

lemma range_order_set:
  assumes "range_order versionCommits kvs"
  shows "set kvs = set versionCommits_literal"
proof -
  from assms have "distinct (map fst kvs)" and "map_of kvs = map_of versionCommits_literal"
    by (simp_all add: range_order_def versionCommits_def)
  then show ?thesis
    using distinct_versions by (simp add: map_of_inject_set)
qed

lemma range_order_rev: "range_order versionCommits (rev versionCommits_literal)"
proof -
  have "distinct (map fst (rev versionCommits_literal))"
    using distinct_versions by (simp add: rev_map [symmetric])
  moreover from this have "map_of (rev versionCommits_literal) = map_of versionCommits_literal"
    using distinct_versions by (simp add: map_of_inject_set)
  ultimately show ?thesis
    by (simp add: range_order_def versionCommits_def)
qed

lemma range_order_nonempty: "range_order versionCommits kvs \<Longrightarrow> kvs \<noteq> []"
  using range_order_length [of kvs] by auto

subsection \<open>The loop of \<open>executeCommand\<close>\<close>

text \<open>
  What a chunk writes does not depend on the session, and flags that are set stay set.
\<close>

lemma Contains_nonempty: "Contains data sub \<Longrightarrow> sub \<noteq> [] \<Longrightarrow> data \<noteq> []"
  by (cases data) auto

lemma handle_chunk_output:
  "snd (handle_chunk env data (s, out)) = snd (handle_chunk env data (s2, out))"
  by (simp add: handle_chunk_def Let_def split: sum.splits)

lemma read_loop_output:
  "snd (read_loop env ds (s, out)) = snd (read_loop env ds (s2, out))"
proof (induction ds arbitrary: s s2 out)
  case Nil
  show ?case by simp
next
  case (Cons d ds)
  show ?case
  proof (cases "d = []")
    case True
    with Cons.IH show ?thesis by simp
  next
    case False
    obtain a o1 where a: "handle_chunk env d (s, out) = (a, o1)" by (cases "handle_chunk env d (s, out)")
    obtain b o2 where b: "handle_chunk env d (s2, out) = (b, o2)" by (cases "handle_chunk env d (s2, out)")
    from a b handle_chunk_output [of env d s out s2] have "o1 = o2" by simp
    with a b False Cons.IH [of a o1 b] show ?thesis by simp
  qed
qed

lemma read_loop_append:
  "read_loop env (xs @ ys) st = read_loop env ys (read_loop env xs st)"
  by (induction xs arbitrary: st) auto

lemma handle_chunk_asserted:
  "asserted s \<Longrightarrow> asserted (fst (handle_chunk env data (s, out)))"
  by (simp add: handle_chunk_def asserted_def Let_def split: sum.splits)

lemma read_loop_asserted:
  "asserted s \<Longrightarrow> asserted (fst (read_loop env ds (s, out)))"
proof (induction ds arbitrary: s out)
  case Nil
  then show ?case by simp
next
  case (Cons d ds)
  obtain a o1 where a: "handle_chunk env d (s, out) = (a, o1)" by (cases "handle_chunk env d (s, out)")
  with Cons.prems handle_chunk_asserted [of s env d out] have "asserted a" by simp
  with a Cons show ?case by simp
qed

lemma handle_chunk_cookie:
  assumes "Contains data GSQL_SEPARATOR" and "Contains data GSQL_COOKIES"
    and "1 < length (Split data ''__,'')"
    and "Unmarshal env (Split data ''__,'' ! 1) Unmarshal_GSQLCookie zero_GSQLCookie = Inr c"
  shows "handle_chunk env data (s, out) =
           (s\<lparr>Cookie := c\<lparr>FromGsqlClient := True, FromGraphStudio := False,
                             GShellTest := True, FromGsqlServer := True\<rparr>\<rparr>, out)"
  using assms by (simp add: handle_chunk_def Let_def)

lemma malformed_update_ignored:
  assumes "malformed_update env data"
  shows "handle_chunk env data (s, out) = (s, out)"
  using assms
  by (auto simp: malformed_update_def handle_chunk_def Let_def isl_def split: sum.splits)

lemma attemptLogin_malformed_cookie:
  assumes "Do env w (login_request env s) = (Inr resp, w')"
    and "isl (Unmarshal env (Get (resp_Header resp) ''Set-Cookie'') Unmarshal_GSQLCookie zero_GSQLCookie)"
  shows "fst (snd (attemptLogin env version (s, w, out))) = s"
  using assms
  by (auto simp: attemptLogin_def login_answer_def Let_def isl_def
           split: option.splits sum.splits prod.splits)

lemma plain_chunk_output:
  assumes "\<not> Contains data GSQL_SEPARATOR" and "\<not> MatchString progressRegex data"
  shows "handle_chunk env data (s, out) =
           (s, out @ TrimSpace data @ (if HasSuffix data newline then [] else newline))"
  using assms by (simp add: handle_chunk_def)

lemma progress_chunk_output:
  assumes "\<not> Contains data GSQL_SEPARATOR" and "MatchString progressRegex data"
  shows "handle_chunk env data (s, out) = (s, out @ data)"
  using assms by (simp add: handle_chunk_def)

lemma plain_chunk_ending_in_newline:
  assumes "\<not> Contains data GSQL_SEPARATOR" and "\<not> MatchString progressRegex data"
    and "HasSuffix data newline"
  shows "handle_chunk env data (s, out) = (s, out @ TrimSpace data)
         \<and> \<not> HasSuffix (TrimSpace data) newline"
  using assms TrimSpace_no_newline by (simp add: plain_chunk_output)

subsection \<open>The pieces of a chunk\<close>

text \<open>
  When the delimiter of the marker is the first \<open>__,\<close> of the chunk, the second piece of
  the chunk is the payload, up to the next \<open>__,\<close>.
\<close>

lemma Contains_infix: "Contains (a @ b @ c) b"
proof (induction a)
  case Nil
  have "prefix b (b @ c)" by simp
  then show ?case by (cases "b @ c") (auto simp del: prefix_code)
next
  case (Cons x a)
  then show ?case by simp
qed

lemma not_Contains_Split: "\<not> Contains s sep \<Longrightarrow> split_from sep acc s = [rev acc @ s]"
  by (induction s arbitrary: acc) auto

lemma split_from_marker:
  "\<not> Contains pre ''__,'' \<Longrightarrow>
   split_from ''__,'' acc (pre @ ''__GSQL__COOKIES__,'' @ b)
     = (rev acc @ pre @ ''__GSQL__COOKIES'') # split_from ''__,'' [] b"
proof (induction pre arbitrary: acc)
  case Nil
  show ?case by simp
next
  case (Cons c p)
  have "\<not> prefix ''__,'' (c # p @ ''__GSQL__COOKIES__,'' @ b)"
    using Cons.prems by (cases p; cases "tl p") auto
  then show ?case using Cons by simp
qed

lemma split_from_payload:
  "\<not> Contains payload ''__,'' \<Longrightarrow> rest = [] \<or> prefix ''__,'' rest \<Longrightarrow>
   hd (split_from ''__,'' acc (payload @ rest)) = rev acc @ payload"
proof (induction payload arbitrary: acc)
  case Nil
  then show ?case by (cases rest) auto
next
  case (Cons c p)
  have "\<not> prefix ''__,'' (c # p @ rest)"
    using Cons.prems by (cases p; cases "tl p") (auto simp: prefix_def)
  then show ?case using Cons by simp
qed

lemma split_from_nonempty: "split_from sep acc s \<noteq> []"
  by (induction sep acc s rule: split_from.induct) auto

lemma delimited_parts:
  assumes "delimited pre payload rest"
  shows "1 < length (Split (cookie_chunk pre payload rest) ''__,'')"
    and "Split (cookie_chunk pre payload rest) ''__,'' ! 1 = payload"
proof -
  have split: "Split (cookie_chunk pre payload rest) ''__,''
          = (pre @ ''__GSQL__COOKIES'') # split_from ''__,'' [] (payload @ rest)"
    using assms split_from_marker [of pre "[]" "payload @ rest"]
    by (simp add: Split_def cookie_chunk_def GSQL_COOKIES_def delimited_def)
  show "1 < length (Split (cookie_chunk pre payload rest) ''__,'')"
    using split split_from_nonempty [of "''__,''" "[]" "payload @ rest"]
    by (cases "split_from ''__,'' [] (payload @ rest)") auto
  show "Split (cookie_chunk pre payload rest) ''__,'' ! 1 = payload"
    using split split_from_payload [of payload rest "[]"] assms
      split_from_nonempty [of "''__,''" "[]" "payload @ rest"]
    by (cases "split_from ''__,'' [] (payload @ rest)") (auto simp: delimited_def)
qed

lemma delimited_markers:
  "Contains (cookie_chunk pre payload rest) GSQL_SEPARATOR"
  "Contains (cookie_chunk pre payload rest) GSQL_COOKIES"
proof -
  show "Contains (cookie_chunk pre payload rest) GSQL_COOKIES"
    using Contains_infix [of pre GSQL_COOKIES "'','' @ payload @ rest"]
    by (simp add: cookie_chunk_def)
  have "cookie_chunk pre payload rest = pre @ GSQL_SEPARATOR @ (''COOKIES__,'' @ payload @ rest)"
    by (simp add: cookie_chunk_def GSQL_COOKIES_def GSQL_SEPARATOR_def)
  then show "Contains (cookie_chunk pre payload rest) GSQL_SEPARATOR"
    using Contains_infix [of pre GSQL_SEPARATOR "''COOKIES__,'' @ payload @ rest"] by simp
qed

text \<open>
  A chunk whose payload does not decode, or that has the marker and no delimiter, is one
  the code ignores. So is a \<open>Set-Cookie\<close> header that does not decode.
\<close>

lemma Contains_front: "Contains data (a @ b) \<Longrightarrow> Contains data a"
proof (induction data)
  case Nil
  then show ?case by simp
next
  case (Cons c s)
  then show ?case by (auto simp del: prefix_code dest: append_prefixD)
qed

lemma no_delimiter_malformed:
  assumes "Contains data GSQL_COOKIES" and "\<not> Contains data ''__,''"
  shows "malformed_update env data"
proof -
  have "GSQL_COOKIES = GSQL_SEPARATOR @ ''COOKIES__''"
    by (simp add: GSQL_COOKIES_def GSQL_SEPARATOR_def)
  with assms(1) have "Contains data GSQL_SEPARATOR"
    using Contains_front [of data GSQL_SEPARATOR "''COOKIES__''"] by simp
  moreover have "Split data ''__,'' = [data]"
    using assms(2) not_Contains_Split [of data "''__,''" "[]"] by (simp add: Split_def)
  ultimately show ?thesis using assms(1) by (simp add: malformed_update_def)
qed

lemma delimited_malformed:
  assumes "delimited pre payload rest"
    and "isl (Unmarshal env payload Unmarshal_GSQLCookie zero_GSQLCookie)"
  shows "malformed_update env (cookie_chunk pre payload rest)"
  using assms delimited_parts [OF assms(1)] delimited_markers [of pre payload rest]
  by (simp add: malformed_update_def)

lemma attemptLogin_welcome_malformed:
  assumes "url_error env (Host s @ GSQL_PATH @ LOGIN_ENDPOINT) = None"
    and "Do env w (login_request env s) = (Inr resp, w')"
    and "ReadAll (resp_Body resp) = Inr body"
    and "Unmarshal env body Unmarshal_loginResp zero_loginResp = Inr r"
    and "IsClientCompatible r" and "\<not> (Error r \<and> User s \<noteq> ''__GSQL__secret'')"
    and "isl (Unmarshal env (Get (resp_Header resp) ''Set-Cookie'') Unmarshal_GSQLCookie zero_GSQLCookie)"
  shows "attemptLogin env version (s, w, out) = (None, s, w', out @ WelcomeMessage r @ newline)"
  using assms(5-7)
  by (subst attemptLogin_decoded [OF assms(1-4)])
     (auto simp: login_answer_def Let_def isl_def split: sum.splits)

lemma without_malformed_chunk:
  assumes bad: "malformed_update env data"
    and url: "url_error env (Host s @ GSQL_PATH @ FILE_ENDPOINT) = None"
    and sent: "Do env w (file_request env s command) = (Inr resp, w')"
    and body: "reads (resp_Body resp) = before @ data # after"
  shows "executeCommand env command (s, w, out) =
          (case read_loop env (before @ after) (s, out) of (s', out') \<Rightarrow> (None, s', w', out'))"
proof -
  obtain s1 o1 where pre: "read_loop env before (s, out) = (s1, o1)"
    by (cases "read_loop env before (s, out)")
  have "read_loop env (before @ data # after) (s, out) = read_loop env (before @ after) (s, out)"
    using pre malformed_update_ignored [OF bad, of s1 o1] by (simp add: read_loop_append)
  with url sent body show ?thesis by (simp add: executeCommand_def)
qed

subsection \<open>The interactive loop\<close>

text \<open>The loop returns exactly when it reads one of the three words.\<close>

lemma session_ends_iff:
  "startInteractiveSession env input st \<noteq> None \<longleftrightarrow>
     (\<exists>line. (line, None) \<in> set input \<and> TrimSpace line \<in> {''Quit'', ''quit'', ''exit''})"
proof (induction input arbitrary: st)
  case Nil
  show ?case by simp
next
  case (Cons entry input)
  obtain line err where entry: "entry = (line, err)" by (cases entry)
  obtain s w out where st: "st = (s, w, out)" by (cases st) auto
  show ?case
  proof (cases err)
    case (Some e)
    with entry st Cons.IH show ?thesis by simp
  next
    case None
    show ?thesis
    proof (cases "TrimSpace line \<in> {''Quit'', ''quit'', ''exit''}")
      case True
      with entry st None show ?thesis
        by (auto simp: handle_line_def)
    next
      case False
      obtain res s1 w1 out1 where
        run: "executeCommand env (TrimSpace line) (s, w, out @ ''GSQL > '') = (res, s1, w1, out1)"
        by (metis prod_cases4)
      from False have "\<exists>st'. handle_line env line (s, w, out @ ''GSQL > '') = Continue st'"
        using run by (cases res) (auto simp: handle_line_def Let_def)
      then obtain st' where "handle_line env line (s, w, out @ ''GSQL > '') = Continue st'"
        by blast
      with entry st None False Cons.IH [of st'] show ?thesis
        by auto
    qed
  qed
qed

subsection \<open>The mock servers at work\<close>

lemma mock_exchange:
  "url_error (mock_env answer) url = None"
  "Do (mock_env answer) n req = (answer n, Suc n)"
  "ReadAll (resp_Body (streamed [text] EOF)) = Inr text"
  by (simp_all add: mock_env_def streamed_def ReadAll_def)

lemma mock_incompatible_text:
  "Unmarshal (mock_env answer) incompatible_text Unmarshal_loginResp zero_loginResp =
     Inr \<lparr>IsClientCompatible = False, Error = False, Message = ''Client not compatible'',
          WelcomeMessage = []\<rparr>"
  by (simp add: Unmarshal_def mock_env_def mock_json_value_def mock_texts_def
      incompatible_text_def Unmarshal_loginResp_def store_struct_def store_loginResp_def
      into_string_def into_bool_def zero_loginResp_def in_range_def upper_def)

lemma mock_rejected_text:
  "Unmarshal (mock_env answer) rejected_text Unmarshal_loginResp zero_loginResp =
     Inr \<lparr>IsClientCompatible = True, Error = True, Message = ''Invalid credentials'',
          WelcomeMessage = []\<rparr>"
  by (simp add: Unmarshal_def mock_env_def mock_json_value_def mock_texts_def
      incompatible_text_def rejected_text_def Unmarshal_loginResp_def store_struct_def
      store_loginResp_def into_string_def into_bool_def zero_loginResp_def in_range_def
      upper_def)

lemma mock_welcome_text:
  "Unmarshal (mock_env answer) welcome_text Unmarshal_loginResp zero_loginResp =
     Inr \<lparr>IsClientCompatible = True, Error = False, Message = ''Login successful'',
          WelcomeMessage = ''Welcome to GSQL''\<rparr>"
  by (simp add: Unmarshal_def mock_env_def mock_json_value_def mock_texts_def
      incompatible_text_def rejected_text_def welcome_text_def Unmarshal_loginResp_def
      store_struct_def store_loginResp_def into_string_def into_bool_def zero_loginResp_def
      in_range_def upper_def)

lemma mock_cookie_text:
  "Unmarshal (mock_env answer) cookie_text Unmarshal_GSQLCookie zero_GSQLCookie =
     Inr \<lparr>ClientCommit = ''test123'', FromGsqlClient = True, FromGraphStudio = False,
          GShellTest = False, FromGsqlServer = False,
          ApplicationGatewayAffinity = [], ApplicationGatewayAffinityCORS = []\<rparr>"
  by (simp add: Unmarshal_def mock_env_def mock_json_value_def mock_texts_def
      incompatible_text_def rejected_text_def welcome_text_def cookie_text_def
      Unmarshal_GSQLCookie_def store_struct_def store_GSQLCookie_def into_string_def
      into_bool_def zero_GSQLCookie_def in_range_def upper_def)

lemma mock_update_text:
  "Unmarshal (mock_env answer) update_text Unmarshal_GSQLCookie zero_GSQLCookie =
     Inr (zero_GSQLCookie\<lparr>ClientCommit := ''updated123''\<rparr>)"
  by (simp add: Unmarshal_def mock_env_def mock_json_value_def mock_texts_def
      incompatible_text_def rejected_text_def welcome_text_def cookie_text_def update_text_def
      Unmarshal_GSQLCookie_def store_struct_def store_GSQLCookie_def into_string_def
      into_bool_def zero_GSQLCookie_def in_range_def upper_def)

lemma mock_broken:
  "isl (Unmarshal (mock_env answer) ''{\"clientCommit\":'' Unmarshal_GSQLCookie zero_GSQLCookie)"
  by (simp add: Unmarshal_def mock_env_def mock_json_value_def mock_texts_def
      incompatible_text_def rejected_text_def welcome_text_def cookie_text_def update_text_def
      session_cookie_text_def inner_text_def)

lemma cookie_chunk_parts:
  "Split (''__GSQL__COOKIES__,'' @ cookie_text) ''__,'' = [''__GSQL__COOKIES'', cookie_text]"
  by (simp add: cookie_text_def Split_def)

lemma incompatible_env_rejects: "rejects_every_version incompatible_env"
  unfolding rejects_every_version_def incompatible_env_def
proof (intro allI)
  fix w :: nat and req :: request
  let ?env = "mock_env (\<lambda>n. Inr (streamed [incompatible_text] EOF))"
  have "Do ?env w req = (Inr (streamed [incompatible_text] EOF), Suc w)"
    by (simp add: mock_env_def)
  moreover have "ReadAll (resp_Body (streamed [incompatible_text] EOF)) = Inr incompatible_text"
    by (simp add: ReadAll_def streamed_def)
  ultimately show "\<exists>resp w' body r.
      Do ?env w req = (Inr resp, w') \<and> ReadAll (resp_Body resp) = Inr body
      \<and> Unmarshal ?env body Unmarshal_loginResp zero_loginResp = Inr r \<and> \<not> IsClientCompatible r"
    using mock_incompatible_text [of "\<lambda>n. Inr (streamed [incompatible_text] EOF)"] by force
qed

lemma attemptLogin_incompatible:
  "attemptLogin incompatible_env version (s, w, out) =
     (Some (Errorf (''client not compatible with version '' @ version)), s, Suc w, out)"
  unfolding incompatible_env_def
  by (subst attemptLogin_decoded [OF mock_exchange(1) mock_exchange(2) mock_exchange(3)
        mock_incompatible_text])
     (simp add: login_answer_def)

lemma login_incompatible_literal:
  "login incompatible_env versionCommits_literal (test_session, 0, []) =
     (Some (Errorf ''unable to establish compatible connection''),
      (test_session\<lparr>Cookie := login_cookie ''c90ec746a7e77ef5b108554be2133dfd1e1ab1b2''\<rparr>, 17, []),
      versionCommits_literal)"
  by (simp add: versionCommits_literal_def attemptLogin_incompatible)

lemma attemptLogin_rejected_first:
  "attemptLogin rejected_first_env version (s, 0, out) =
     (if User s \<noteq> ''__GSQL__secret'' then (Some (Errorf ''Invalid credentials''), s, 1, out)
      else (None, s, 1, out @ newline))"
proof -
  let ?answer = "\<lambda>n::nat. if n = 0 then Inr (streamed [rejected_text] EOF)
                        else Inr (streamed [welcome_text] EOF)"
  have sent: "Do (mock_env ?answer) 0 (login_request (mock_env ?answer) s)
                = (Inr (streamed [rejected_text] EOF), 1)"
    by (simp add: mock_exchange)
  show ?thesis
    unfolding rejected_first_env_def
    by (simp add: attemptLogin_decoded [OF mock_exchange(1) sent mock_exchange(3) mock_rejected_text]
        login_answer_def streamed_def Get_def)
qed

lemma attemptLogin_welcomed:
  "attemptLogin rejected_first_env version (s, Suc n, out) =
     (None, s, Suc (Suc n), out @ ''Welcome to GSQL'' @ newline)"
proof -
  let ?answer = "\<lambda>n::nat. if n = 0 then Inr (streamed [rejected_text] EOF)
                        else Inr (streamed [welcome_text] EOF)"
  have sent: "Do (mock_env ?answer) (Suc n) (login_request (mock_env ?answer) s)
                = (Inr (streamed [welcome_text] EOF), Suc (Suc n))"
    by (simp add: mock_exchange)
  show ?thesis
    unfolding rejected_first_env_def
    by (simp add: attemptLogin_decoded [OF mock_exchange(1) sent mock_exchange(3) mock_welcome_text]
        login_answer_def streamed_def Get_def)
qed

lemma login_rejected_first:
  "login rejected_first_env versionCommits_literal (test_session, 0, []) =
     (None,
      (test_session\<lparr>Cookie := login_cookie ''b77b8fc6c2ceadd457571fc0a6ce1fb243e5f31c'',
                    Version := ''3.6.1''\<rparr>, 2, ''Welcome to GSQL'' @ newline),
      [(''3.6.2'', ''31716aa98a0d4bd3bd7c5488dfc795a82dfee80d''),
       (''3.6.1'', ''b77b8fc6c2ceadd457571fc0a6ce1fb243e5f31c'')])"
  by (simp add: versionCommits_literal_def attemptLogin_rejected_first attemptLogin_welcomed
      test_session_def numeral_2_eq_2)

lemma plain_chunks:
  "\<not> MatchString progressRegex ''Command output''"
  "TrimSpace ''Command output'' = ''Command output''"
  by code_simp+

lemma example_chunks:
  "MatchString progressRegex (''[==  ] 40% (2/5)'' @ newline)"
  "\<not> MatchString progressRegex (''done'' @ newline)"
  "TrimSpace (''done'' @ newline) = ''done''"
  "\<not> MatchString progressRegex ''partial output''"
  "TrimSpace ''partial output'' = ''partial output''"
  by code_simp+

lemma progress_example:
  "handle_chunk env (''[==  ] 40% (2/5)'' @ newline) (s, out)
     = (s, out @ ''[==  ] 40% (2/5)'' @ newline)"
  by (subst progress_chunk_output)
     (simp_all add: example_chunks [simplified] GSQL_SEPARATOR_def)

lemma done_example:
  "handle_chunk env (''done'' @ newline) (s, out) = (s, out @ ''done'')"
  by (subst plain_chunk_output)
     (simp_all add: example_chunks [simplified] GSQL_SEPARATOR_def HasSuffix_rev)

lemma partial_example:
  "handle_chunk env ''partial output'' (s, out) = (s, out @ ''partial output'' @ newline)"
  by (subst plain_chunk_output)
     (simp_all add: example_chunks GSQL_SEPARATOR_def HasSuffix_rev)

lemma example_lines:
  "TrimSpace (''quit'' @ newline) = ''quit''"
  "TrimSpace (''  Quit '' @ newline) = ''Quit''"
  "TrimSpace (''QUIT'' @ newline) = ''QUIT''"
  "TrimSpace (''Exit'' @ newline) = ''Exit''"
  "TrimSpace (''   '' @ newline) = []"
  "TrimSpace (''ls'' @ newline) = ''ls''"
  by code_simp+

lemma executeCommand_echo:
  "executeCommand echo_env command (s, n, out) = (None, s, Suc n, out @ ''Command output'' @ newline)"
proof -
  have "handle_chunk echo_env ''Command output'' (s, out) = (s, out @ ''Command output'' @ newline)"
    by (subst plain_chunk_output)
       (simp_all add: plain_chunks GSQL_SEPARATOR_def HasSuffix_rev)
  then show ?thesis
    by (simp add: executeCommand_def echo_env_def [symmetric])
       (simp add: echo_env_def mock_exchange streamed_def)
qed

lemma session_cookie_valid:
  "ValidString ''abc123''" "ValidString []"
  by code_simp+

lemma session_cookie_written:
  "compact (Marshal_GSQLCookie (Cookie test_session)) = session_cookie_text"
  by (simp add: test_session_def Marshal_GSQLCookie_def omitempty_def quoted_def
      valid_coerce [OF session_cookie_valid(1)] session_cookie_text_def)

lemma session_cookie_read:
  "mock_json_value session_cookie_text = Inr (Marshal_GSQLCookie (Cookie test_session))"
  by (simp add: mock_json_value_def mock_texts_def incompatible_text_def rejected_text_def
      welcome_text_def cookie_text_def update_text_def session_cookie_text_def
      test_session_def Marshal_GSQLCookie_def omitempty_def
      valid_coerce [OF session_cookie_valid(1)])

lemma executeCommand_single:
  "chunk \<noteq> [] \<Longrightarrow>
   executeCommand (single_env chunk) command (s, n, out) =
     (case handle_chunk (single_env chunk) chunk (s, out) of (s', out') \<Rightarrow> (None, s', Suc n, out'))"
  by (simp add: executeCommand_def single_env_def mock_env_def streamed_def)

lemma mock_inner_text:
  "Unmarshal (mock_env answer) inner_text Unmarshal_GSQLCookie zero_GSQLCookie =
     Inr (zero_GSQLCookie\<lparr>ClientCommit := ''a__,b''\<rparr>)"
  by (simp add: Unmarshal_def mock_env_def mock_json_value_def mock_texts_def
      incompatible_text_def rejected_text_def welcome_text_def cookie_text_def update_text_def
      session_cookie_text_def inner_text_def
      Unmarshal_GSQLCookie_def store_struct_def store_GSQLCookie_def into_string_def
      into_bool_def zero_GSQLCookie_def in_range_def upper_def)

lemma mock_unread:
  "isl (Unmarshal (mock_env answer) (update_text @ newline @ ''__GSQL__RETURN__CODE'')
          Unmarshal_GSQLCookie zero_GSQLCookie)"
  "isl (Unmarshal (mock_env answer) (''0'' @ newline @ ''__GSQL__COOKIES'')
          Unmarshal_GSQLCookie zero_GSQLCookie)"
  "isl (Unmarshal (mock_env answer) ''{\"clientCommit\":\"a'' Unmarshal_GSQLCookie zero_GSQLCookie)"
  by (simp_all add: Unmarshal_def mock_env_def mock_json_value_def mock_texts_def
      incompatible_text_def rejected_text_def welcome_text_def cookie_text_def update_text_def
      session_cookie_text_def inner_text_def)

lemma unread_chunk_parts:
  "Split trailing_chunk ''__,'' =
     [''__GSQL__COOKIES'', update_text @ newline @ ''__GSQL__RETURN__CODE'', ''0'' @ newline]"
  "Split leading_chunk ''__,'' =
     [''__GSQL__RETURN__CODE'', ''0'' @ newline @ ''__GSQL__COOKIES'', update_text]"
  "Split inner_chunk ''__,'' = [''__GSQL__COOKIES'', ''{\"clientCommit\":\"a'', ''b\"}'']"
  "Split earlier_chunk ''__,'' =
     [''x'', update_text, ''__GSQL__COOKIES'', ''{\"clientCommit\":'']"
  "Split bare_chunk ''__,'' = [bare_chunk]"
  by (simp_all add: trailing_chunk_def leading_chunk_def inner_chunk_def earlier_chunk_def
      bare_chunk_def update_chunk_def update_text_def inner_text_def Split_def)

lemma unread_chunk_markers:
  "Contains trailing_chunk GSQL_SEPARATOR" "Contains trailing_chunk GSQL_COOKIES"
  "Contains leading_chunk GSQL_SEPARATOR" "Contains leading_chunk GSQL_COOKIES"
  "Contains inner_chunk GSQL_SEPARATOR" "Contains inner_chunk GSQL_COOKIES"
  "Contains earlier_chunk GSQL_SEPARATOR" "Contains earlier_chunk GSQL_COOKIES"
  "Contains bare_chunk GSQL_SEPARATOR" "Contains bare_chunk GSQL_COOKIES"
  "\<not> Contains bare_chunk ''__,''"
  by (simp_all add: trailing_chunk_def leading_chunk_def inner_chunk_def earlier_chunk_def
      bare_chunk_def update_chunk_def update_text_def inner_text_def
      GSQL_SEPARATOR_def GSQL_COOKIES_def)

lemma unread_chunks_malformed:
  "malformed_update (mock_env answer) trailing_chunk"
  "malformed_update (mock_env answer) leading_chunk"
  "malformed_update (mock_env answer) inner_chunk"
  by (simp_all add: malformed_update_def unread_chunk_markers unread_chunk_parts
      mock_unread [simplified])

lemma executeCommand_unread:
  assumes "chunk \<noteq> []" and "\<And>answer. malformed_update (mock_env answer) chunk"
  shows "executeCommand (single_env chunk) command (s, n, out) = (None, s, Suc n, out)"
proof -
  have "malformed_update (single_env chunk) chunk"
    unfolding single_env_def by (rule assms(2))
  then show ?thesis
    by (simp add: executeCommand_single [OF assms(1)] malformed_update_ignored)
qed

section \<open>Claims\<close>

text \<open>
  C1. When the response to an attempt says that the client is compatible and reports an
  error, and the user is not \<open>__GSQL__secret\<close>, that attempt fails at once with the
  message of the server: \<open>attemptLogin\<close> stores no cookie and prints no welcome. \<open>login\<close>
  does not stop there. It drops the message and goes on with the next entry as after any
  other failed attempt, so a later entry can still be accepted, and when none is the
  error of \<open>login\<close> is ``unable to establish compatible connection'', not the message
  of the server.
\<close>

theorem rejected_credentials_fail_one_attempt:
  assumes url: "url_error env (Host s @ GSQL_PATH @ LOGIN_ENDPOINT) = None"
    and sent: "Do env w (login_request env (s\<lparr>Cookie := login_cookie commit\<rparr>)) = (Inr resp, w')"
    and body: "ReadAll (resp_Body resp) = Inr body"
    and decoded: "Unmarshal env body Unmarshal_loginResp zero_loginResp = Inr r"
    and rejected: "IsClientCompatible r" "Error r" "User s \<noteq> ''__GSQL__secret''"
  shows "attemptLogin env version (s\<lparr>Cookie := login_cookie commit\<rparr>, w, out) =
           (Some (Errorf (Message r)), s\<lparr>Cookie := login_cookie commit\<rparr>, w', out)
         \<and> login env ((version, commit) # kvs) (s, w, out) =
             (case login env kvs (s\<lparr>Cookie := login_cookie commit\<rparr>, w', out) of
                (res, st, tried) \<Rightarrow> (res, st, (version, commit) # tried))
         \<and> (fst (login env ((version, commit) # kvs) (s, w, out)) = None
              \<or> fst (login env ((version, commit) # kvs) (s, w, out))
                  = Some (Errorf ''unable to establish compatible connection''))"
proof -
  have url': "url_error env (Host (s\<lparr>Cookie := login_cookie commit\<rparr>) @ GSQL_PATH @ LOGIN_ENDPOINT) = None"
    using url by simp
  have attempt: "attemptLogin env version (s\<lparr>Cookie := login_cookie commit\<rparr>, w, out) =
           (Some (Errorf (Message r)), s\<lparr>Cookie := login_cookie commit\<rparr>, w', out)"
    using rejected
    by (simp add: attemptLogin_decoded [OF url' sent body decoded] login_answer_def)
  then have next_entry: "login env ((version, commit) # kvs) (s, w, out) =
             (case login env kvs (s\<lparr>Cookie := login_cookie commit\<rparr>, w', out) of
                (res, st, tried) \<Rightarrow> (res, st, (version, commit) # tried))"
    by simp
  obtain res s' w'' out' tried where
    l: "login env ((version, commit) # kvs) (s, w, out) = (res, (s', w'', out'), tried)"
    by (metis prod_cases3)
  have "res = None \<or> res = Some (Errorf ''unable to establish compatible connection'')"
  proof (cases res)
    case None
    then show ?thesis by simp
  next
    case (Some err)
    with l login_error [of env "(version, commit) # kvs" s w out err s' w'' out' tried]
    show ?thesis by simp
  qed
  with l attempt next_entry show ?thesis by simp
qed

theorem rejected_credentials_fail_one_attempt_witness:
  "url_error rejected_first_env (Host test_session @ GSQL_PATH @ LOGIN_ENDPOINT) = None
   \<and> Do rejected_first_env 0
        (login_request rejected_first_env
           (test_session\<lparr>Cookie := login_cookie ''31716aa98a0d4bd3bd7c5488dfc795a82dfee80d''\<rparr>))
      = (Inr (streamed [rejected_text] EOF), 1)
   \<and> ReadAll (resp_Body (streamed [rejected_text] EOF)) = Inr rejected_text
   \<and> Unmarshal rejected_first_env rejected_text Unmarshal_loginResp zero_loginResp
      = Inr \<lparr>IsClientCompatible = True, Error = True, Message = ''Invalid credentials'',
             WelcomeMessage = []\<rparr>
   \<and> User test_session \<noteq> ''__GSQL__secret''
   \<and> attemptLogin rejected_first_env ''3.6.2''
        (test_session\<lparr>Cookie := login_cookie ''31716aa98a0d4bd3bd7c5488dfc795a82dfee80d''\<rparr>, 0, [])
      = (Some (Errorf ''Invalid credentials''),
         test_session\<lparr>Cookie := login_cookie ''31716aa98a0d4bd3bd7c5488dfc795a82dfee80d''\<rparr>, 1, [])
   \<and> login rejected_first_env
        [(''3.6.2'', ''31716aa98a0d4bd3bd7c5488dfc795a82dfee80d''),
         (''3.6.1'', ''b77b8fc6c2ceadd457571fc0a6ce1fb243e5f31c'')] (test_session, 0, [])
      = (case login rejected_first_env [(''3.6.1'', ''b77b8fc6c2ceadd457571fc0a6ce1fb243e5f31c'')]
                (test_session\<lparr>Cookie := login_cookie ''31716aa98a0d4bd3bd7c5488dfc795a82dfee80d''\<rparr>, 1, []) of
           (res, st, tried) \<Rightarrow> (res, st, (''3.6.2'', ''31716aa98a0d4bd3bd7c5488dfc795a82dfee80d'') # tried))"
proof -
  let ?s = "test_session\<lparr>Cookie := login_cookie ''31716aa98a0d4bd3bd7c5488dfc795a82dfee80d''\<rparr>"
  let ?r = "\<lparr>IsClientCompatible = True, Error = True, Message = ''Invalid credentials'',
             WelcomeMessage = []\<rparr>"
  have h1: "url_error rejected_first_env (Host test_session @ GSQL_PATH @ LOGIN_ENDPOINT) = None"
    by (simp add: rejected_first_env_def mock_exchange)
  have h2: "Do rejected_first_env 0 (login_request rejected_first_env ?s)
              = (Inr (streamed [rejected_text] EOF), 1)"
    by (simp add: rejected_first_env_def mock_exchange)
  have h3: "ReadAll (resp_Body (streamed [rejected_text] EOF)) = Inr rejected_text"
    by (rule mock_exchange)
  have h4: "Unmarshal rejected_first_env rejected_text Unmarshal_loginResp zero_loginResp = Inr ?r"
    by (simp add: rejected_first_env_def mock_rejected_text)
  have h5: "IsClientCompatible ?r" by simp
  have h6: "Error ?r" by simp
  have h7: "User test_session \<noteq> ''__GSQL__secret''"
    by (simp add: test_session_def)
  note run = rejected_credentials_fail_one_attempt [OF h1 h2 h3 h4 h5 h6 h7,
      of "''3.6.2''" "[]" "[(''3.6.1'', ''b77b8fc6c2ceadd457571fc0a6ce1fb243e5f31c'')]"]
  from run have c1: "attemptLogin rejected_first_env ''3.6.2'' (?s, 0, [])
      = (Some (Errorf ''Invalid credentials''), ?s, 1, [])"
    by simp
  from run have c2: "login rejected_first_env
        [(''3.6.2'', ''31716aa98a0d4bd3bd7c5488dfc795a82dfee80d''),
         (''3.6.1'', ''b77b8fc6c2ceadd457571fc0a6ce1fb243e5f31c'')] (test_session, 0, [])
      = (case login rejected_first_env [(''3.6.1'', ''b77b8fc6c2ceadd457571fc0a6ce1fb243e5f31c'')]
                (?s, 1, []) of
           (res, st, tried) \<Rightarrow> (res, st, (''3.6.2'', ''31716aa98a0d4bd3bd7c5488dfc795a82dfee80d'') # tried))"
    by (rule conjunct2 [THEN conjunct1])
  show ?thesis by (intro conjI h1 h2 h3 h4 h7 c1 c2)
qed

text \<open>
  The rejection is not final: the mock server rejects the credentials of the first
  request and welcomes the client at the second. The first attempt fails with the
  message of the server, and \<open>login\<close> still succeeds, with the second entry it tried as
  the version of the session.
\<close>

theorem login_continues_after_rejection_counterexample:
  "Unmarshal rejected_first_env rejected_text Unmarshal_loginResp zero_loginResp
      = Inr \<lparr>IsClientCompatible = True, Error = True, Message = ''Invalid credentials'',
             WelcomeMessage = []\<rparr>
   \<and> User test_session \<noteq> ''__GSQL__secret''
   \<and> attemptLogin rejected_first_env ''3.6.2''
        (test_session\<lparr>Cookie := login_cookie ''31716aa98a0d4bd3bd7c5488dfc795a82dfee80d''\<rparr>, 0, [])
      = (Some (Errorf ''Invalid credentials''),
         test_session\<lparr>Cookie := login_cookie ''31716aa98a0d4bd3bd7c5488dfc795a82dfee80d''\<rparr>, 1, [])
   \<and> login rejected_first_env versionCommits_literal (test_session, 0, []) =
     (None,
      (test_session\<lparr>Cookie := login_cookie ''b77b8fc6c2ceadd457571fc0a6ce1fb243e5f31c'',
                    Version := ''3.6.1''\<rparr>, 2, ''Welcome to GSQL'' @ newline),
      [(''3.6.2'', ''31716aa98a0d4bd3bd7c5488dfc795a82dfee80d''),
       (''3.6.1'', ''b77b8fc6c2ceadd457571fc0a6ce1fb243e5f31c'')])"
proof -
  have "User test_session \<noteq> ''__GSQL__secret''"
    by (simp add: test_session_def)
  then show ?thesis
    by (simp add: rejected_first_env_def [symmetric] login_rejected_first
        attemptLogin_rejected_first)
       (simp add: rejected_first_env_def mock_rejected_text)
qed

text \<open>
  C2. Against a server that rejects every version, \<open>login\<close> calls \<open>attemptLogin\<close> for
  every entry of \<open>versionCommits\<close> exactly once, 17 times in all, and then fails with
  ``unable to establish compatible connection''. The entries are tried in the order in
  which the \<open>range\<close> over the map yields them, which Go leaves open: it need not be the
  order of the literal.
\<close>

theorem login_exhausts_table:
  assumes "range_order versionCommits kvs" and "rejects_every_version env"
  shows "fst (login env kvs st) = Some (Errorf ''unable to establish compatible connection'')
         \<and> snd (snd (login env kvs st)) = kvs
         \<and> length kvs = 17 \<and> distinct kvs \<and> set kvs = set versionCommits_literal"
proof -
  have "fst (login env kvs st) = Some (Errorf ''unable to establish compatible connection'')
        \<and> snd (snd (login env kvs st)) = kvs"
    using rejected_attempt [OF assms(2)] by (rule login_all_fail)
  moreover have "distinct kvs"
    using assms(1) by (auto simp: range_order_def distinct_map)
  ultimately show ?thesis
    using range_order_length [OF assms(1)] range_order_set [OF assms(1)] by simp
qed

theorem login_exhausts_table_witness:
  "range_order versionCommits versionCommits_literal \<and> rejects_every_version incompatible_env
   \<and> fst (login incompatible_env versionCommits_literal (test_session, 0, []))
       = Some (Errorf ''unable to establish compatible connection'')
   \<and> snd (snd (login incompatible_env versionCommits_literal (test_session, 0, [])))
       = versionCommits_literal
   \<and> length versionCommits_literal = 17"
  using login_exhausts_table [OF range_order_literal incompatible_env_rejects,
      of "(test_session, 0, [])"]
    range_order_literal incompatible_env_rejects
  by simp

text \<open>
  The order of the literal is not the order of the attempts for every run: the reverse
  of the literal is an order in which the \<open>range\<close> may yield the entries, and then the
  first attempt is for version 3.0.0, the last entry of the literal.
\<close>

theorem login_order_counterexample:
  "range_order versionCommits (rev versionCommits_literal)
   \<and> rejects_every_version incompatible_env
   \<and> snd (snd (login incompatible_env (rev versionCommits_literal) (test_session, 0, [])))
       = rev versionCommits_literal
   \<and> hd (rev versionCommits_literal) = (''3.0.0'', ''c90ec746a7e77ef5b108554be2133dfd1e1ab1b2'')
   \<and> hd versionCommits_literal = (''3.6.2'', ''31716aa98a0d4bd3bd7c5488dfc795a82dfee80d'')"
proof -
  have "snd (snd (login incompatible_env (rev versionCommits_literal) (test_session, 0, [])))
          = rev versionCommits_literal"
    using login_all_fail [OF rejected_attempt [OF incompatible_env_rejects]] by blast
  moreover have "hd (rev versionCommits_literal) = (''3.0.0'', ''c90ec746a7e77ef5b108554be2133dfd1e1ab1b2'')"
    by (simp add: versionCommits_literal_def)
  moreover have "hd versionCommits_literal = (''3.6.2'', ''31716aa98a0d4bd3bd7c5488dfc795a82dfee80d'')"
    by (simp add: versionCommits_literal_def)
  ultimately show ?thesis
    using range_order_rev incompatible_env_rejects by blast
qed

text \<open>
  C3 (the code differs). \<open>executeCommand\<close> sets the four flags of a cookie it has decoded
  before it stores it; \<open>attemptLogin\<close> stores the decoded cookie as it is. For the cookie
  that the mock server of \<open>TestGSQLSessionAttemptLogin\<close> sends,
  \<open>{"clientCommit":"test123","fromGsqlClient":true}\<close>, the session has \<open>GShellTest\<close> and
  \<open>FromGsqlServer\<close> false after \<open>attemptLogin\<close>, and true after a chunk of
  \<open>executeCommand\<close> with the same text.
\<close>

theorem attemptLogin_stores_cookie_unchanged:
  "attemptLogin cookie_login_env
      ''3.6.2'' (test_session, 0, [])
     = (None,
        test_session\<lparr>Cookie :=
          \<lparr>ClientCommit = ''test123'', FromGsqlClient = True, FromGraphStudio = False,
           GShellTest = False, FromGsqlServer = False,
           ApplicationGatewayAffinity = [], ApplicationGatewayAffinityCORS = []\<rparr>\<rparr>,
        1, ''Welcome to GSQL'' @ newline)
   \<and> handle_chunk cookie_login_env
        (''__GSQL__COOKIES__,'' @ cookie_text) (test_session, [])
     = (test_session\<lparr>Cookie :=
          \<lparr>ClientCommit = ''test123'', FromGsqlClient = True, FromGraphStudio = False,
           GShellTest = True, FromGsqlServer = True,
           ApplicationGatewayAffinity = [], ApplicationGatewayAffinityCORS = []\<rparr>\<rparr>, [])"
proof -
  let ?resp = "with_cookie cookie_text (streamed [welcome_text] EOF)"
  let ?env = "mock_env (\<lambda>n. Inr ?resp)"
  have body: "ReadAll (resp_Body ?resp) = Inr welcome_text"
    by (simp add: with_cookie_def streamed_def ReadAll_def)
  have header: "Get (resp_Header ?resp) ''Set-Cookie'' = cookie_text"
    by (simp add: with_cookie_def Get_def)
  have nonempty: "cookie_text \<noteq> []"
    by (simp add: cookie_text_def)
  have "attemptLogin ?env ''3.6.2'' (test_session, 0, []) =
          (case login_answer ?env ''3.6.2'' ?resp
                  \<lparr>IsClientCompatible = True, Error = False, Message = ''Login successful'',
                   WelcomeMessage = ''Welcome to GSQL''\<rparr> (test_session, []) of
             (res, s', out') \<Rightarrow> (res, s', 1, out'))"
    by (rule attemptLogin_decoded [OF mock_exchange(1) _ body mock_welcome_text])
       (simp add: mock_exchange)
  then have login: "attemptLogin ?env ''3.6.2'' (test_session, 0, [])
     = (None,
        test_session\<lparr>Cookie :=
          \<lparr>ClientCommit = ''test123'', FromGsqlClient = True, FromGraphStudio = False,
           GShellTest = False, FromGsqlServer = False,
           ApplicationGatewayAffinity = [], ApplicationGatewayAffinityCORS = []\<rparr>\<rparr>,
        1, ''Welcome to GSQL'' @ newline)"
    by (simp add: login_answer_def header nonempty mock_cookie_text)
  have "handle_chunk ?env (''__GSQL__COOKIES__,'' @ cookie_text) (test_session, [])
     = (test_session\<lparr>Cookie :=
          \<lparr>ClientCommit = ''test123'', FromGsqlClient = True, FromGraphStudio = False,
           GShellTest = True, FromGsqlServer = True,
           ApplicationGatewayAffinity = [], ApplicationGatewayAffinityCORS = []\<rparr>\<rparr>, [])"
    by (subst handle_chunk_cookie [where c = "\<lparr>ClientCommit = ''test123'', FromGsqlClient = True,
           FromGraphStudio = False, GShellTest = False, FromGsqlServer = False,
           ApplicationGatewayAffinity = [], ApplicationGatewayAffinityCORS = []\<rparr>"])
       (simp_all add: cookie_chunk_parts [simplified] mock_cookie_text GSQL_SEPARATOR_def
          GSQL_COOKIES_def)
  with login show ?thesis unfolding cookie_login_env_def by blast
qed

text \<open>
  C4. Let a chunk of the body consist of a text, the marker
  \<open>__GSQL__COOKIES__\<close> with its delimiter, a payload and a rest, where the delimiter of
  the marker is the first \<open>__,\<close> of the chunk and the payload runs to the next \<open>__,\<close> or
  to the end of the chunk. If the payload decodes to a cookie \<open>c\<close>, then the command
  succeeds, the cookie of the session afterwards has \<open>FromGsqlClient\<close> and
  \<open>FromGsqlServer\<close> set whatever \<open>c\<close> says, and the output is the output of the same
  body without that chunk: the chunk itself stores \<open>c\<close> with the four flags forced and
  writes nothing.
\<close>

theorem executeCommand_cookie_chunk:
  assumes url: "url_error env (Host s @ GSQL_PATH @ FILE_ENDPOINT) = None"
    and sent: "Do env w (file_request env s command) = (Inr resp, w')"
    and body: "reads (resp_Body resp) = before @ cookie_chunk pre payload rest # after"
    and first: "delimited pre payload rest"
    and payload: "Unmarshal env payload Unmarshal_GSQLCookie zero_GSQLCookie = Inr c"
  shows "(case executeCommand env command (s, w, out) of
            (res, s', w'', out') \<Rightarrow>
              res = None \<and> FromGsqlClient (Cookie s') \<and> FromGsqlServer (Cookie s')
              \<and> out' = snd (read_loop env (before @ after) (s, out)))
         \<and> handle_chunk env (cookie_chunk pre payload rest) (s, out) =
             (s\<lparr>Cookie := c\<lparr>FromGsqlClient := True, FromGraphStudio := False,
                               GShellTest := True, FromGsqlServer := True\<rparr>\<rparr>, out)"
proof -
  let ?data = "cookie_chunk pre payload rest"
  obtain s1 o1 where pre: "read_loop env before (s, out) = (s1, o1)"
    by (cases "read_loop env before (s, out)")
  let ?c = "c\<lparr>FromGsqlClient := True, FromGraphStudio := False,
               GShellTest := True, FromGsqlServer := True\<rparr>"
  have sep: "Contains ?data GSQL_SEPARATOR" and marker: "Contains ?data GSQL_COOKIES"
    by (rule delimited_markers)+
  have parts: "1 < length (Split ?data ''__,'')"
    using first by (rule delimited_parts)
  have second: "Unmarshal env (Split ?data ''__,'' ! 1) Unmarshal_GSQLCookie zero_GSQLCookie = Inr c"
    using payload delimited_parts(2) [OF first] by simp
  have nonempty: "?data \<noteq> []"
    using sep Contains_nonempty by (auto simp: GSQL_SEPARATOR_def)
  have chunk: "handle_chunk env ?data (s1, o1) = (s1\<lparr>Cookie := ?c\<rparr>, o1)"
    using handle_chunk_cookie [OF sep marker parts second] .
  obtain s2 o2 where post: "read_loop env after (s1\<lparr>Cookie := ?c\<rparr>, o1) = (s2, o2)"
    by (cases "read_loop env after (s1\<lparr>Cookie := ?c\<rparr>, o1)")
  have whole: "read_loop env (before @ ?data # after) (s, out) = (s2, o2)"
    using pre chunk post nonempty by (simp add: read_loop_append)
  have "asserted (s1\<lparr>Cookie := ?c\<rparr>)" by (simp add: asserted_def)
  then have "asserted s2"
    using read_loop_asserted [of "s1\<lparr>Cookie := ?c\<rparr>" env after o1] post by simp
  moreover have "o2 = snd (read_loop env (before @ after) (s, out))"
    using read_loop_output [of env after "s1\<lparr>Cookie := ?c\<rparr>" o1 s1] pre post
    by (simp add: read_loop_append)
  moreover have "handle_chunk env ?data (s, out) = (s\<lparr>Cookie := ?c\<rparr>, out)"
    using handle_chunk_cookie [OF sep marker parts second] .
  ultimately show ?thesis
    using url sent body whole by (simp add: executeCommand_def asserted_def)
qed

theorem executeCommand_cookie_chunk_witness:
  "url_error update_env (Host test_session @ GSQL_PATH @ FILE_ENDPOINT) = None
   \<and> Do update_env 0 (file_request update_env test_session ''ls'')
      = (Inr (streamed [''Command output'', update_chunk] EOF), 1)
   \<and> reads (resp_Body (streamed [''Command output'', update_chunk] EOF))
      = [''Command output''] @ cookie_chunk [] update_text [] # []
   \<and> delimited [] update_text []
   \<and> Unmarshal update_env update_text Unmarshal_GSQLCookie zero_GSQLCookie
      = Inr (zero_GSQLCookie\<lparr>ClientCommit := ''updated123''\<rparr>)
   \<and> \<not> FromGsqlClient (zero_GSQLCookie\<lparr>ClientCommit := ''updated123''\<rparr>)
   \<and> \<not> FromGsqlServer (zero_GSQLCookie\<lparr>ClientCommit := ''updated123''\<rparr>)
   \<and> (case executeCommand update_env ''ls'' (test_session, 0, []) of
         (res, s', w'', out') \<Rightarrow>
           res = None \<and> FromGsqlClient (Cookie s') \<and> FromGsqlServer (Cookie s')
           \<and> out' = snd (read_loop update_env ([''Command output''] @ []) (test_session, [])))
   \<and> executeCommand update_env ''ls'' (test_session, 0, [])
      = (None,
         test_session\<lparr>Cookie := \<lparr>ClientCommit = ''updated123'', FromGsqlClient = True,
            FromGraphStudio = False, GShellTest = True, FromGsqlServer = True,
            ApplicationGatewayAffinity = [], ApplicationGatewayAffinityCORS = []\<rparr>\<rparr>,
         1, ''Command output'' @ newline)"
proof -
  let ?env = "mock_env (\<lambda>n. Inr (streamed [''Command output'', update_chunk] EOF))"
  have h1: "url_error ?env (Host test_session @ GSQL_PATH @ FILE_ENDPOINT) = None"
    by (simp add: mock_env_def)
  have h2: "Do ?env 0 (file_request ?env test_session ''ls'')
              = (Inr (streamed [''Command output'', update_chunk] EOF), 1)"
    by (simp add: mock_env_def)
  have h3: "reads (resp_Body (streamed [''Command output'', update_chunk] EOF))
              = [''Command output''] @ cookie_chunk [] update_text [] # []"
    by (simp add: streamed_def cookie_chunk_def update_chunk_def GSQL_COOKIES_def)
  have h4: "delimited [] update_text []"
    by (simp add: delimited_def update_text_def)
  have h5: "Unmarshal ?env update_text Unmarshal_GSQLCookie zero_GSQLCookie
              = Inr (zero_GSQLCookie\<lparr>ClientCommit := ''updated123''\<rparr>)"
    by (rule mock_update_text)
  have h6: "\<not> FromGsqlClient (zero_GSQLCookie\<lparr>ClientCommit := ''updated123''\<rparr>)"
    and h7: "\<not> FromGsqlServer (zero_GSQLCookie\<lparr>ClientCommit := ''updated123''\<rparr>)"
    by (simp_all add: zero_GSQLCookie_def)
  note run = executeCommand_cookie_chunk [OF h1 h2 h3 h4 h5, of "[]"]
  have stored: "handle_chunk ?env update_chunk (test_session, ''Command output'' @ newline)
      = (test_session\<lparr>Cookie := \<lparr>ClientCommit = ''updated123'', FromGsqlClient = True,
            FromGraphStudio = False, GShellTest = True, FromGsqlServer = True,
            ApplicationGatewayAffinity = [], ApplicationGatewayAffinityCORS = []\<rparr>\<rparr>,
         ''Command output'' @ newline)"
    using executeCommand_cookie_chunk [OF h1 h2 h3 h4 h5, of "''Command output'' @ newline",
        THEN conjunct2]
    by (simp add: cookie_chunk_def update_chunk_def GSQL_COOKIES_def zero_GSQLCookie_def
        test_session_def)
  have first_read: "handle_chunk ?env ''Command output'' (test_session, [])
      = (test_session, ''Command output'' @ newline)"
    by (subst plain_chunk_output) (simp_all add: plain_chunks GSQL_SEPARATOR_def HasSuffix_rev)
  have whole: "executeCommand ?env ''ls'' (test_session, 0, [])
      = (None,
         test_session\<lparr>Cookie := \<lparr>ClientCommit = ''updated123'', FromGsqlClient = True,
            FromGraphStudio = False, GShellTest = True, FromGsqlServer = True,
            ApplicationGatewayAffinity = [], ApplicationGatewayAffinityCORS = []\<rparr>\<rparr>,
         1, ''Command output'' @ newline)"
    using first_read stored
    by (simp add: executeCommand_def mock_env_def streamed_def update_chunk_def update_text_def)
  show ?thesis unfolding update_env_def
    by (intro conjI h1 h2 h3 h4 h5 h6 h7 run [THEN conjunct1] whole)
qed

text \<open>
  The code reads the second piece of the chunk split at every \<open>__,\<close>, which need not be
  the cookie after the marker. A chunk with the separator, the marker and a cookie that
  decodes is not read when another control line follows the cookie in the same read (the
  piece has text after the cookie), when a control line stands before the marker (the
  piece is the text between the two delimiters), or when the cookie has \<open>__,\<close> inside a
  string (the piece ends there): the session keeps its cookie, with \<open>FromGsqlClient\<close>
  and \<open>FromGsqlServer\<close> still false.
\<close>

theorem cookie_chunk_unread_counterexample:
  "trailing_chunk
     = cookie_chunk [] update_text (newline @ ''__GSQL__RETURN__CODE__,0'' @ newline)
   \<and> leading_chunk = cookie_chunk (''__GSQL__RETURN__CODE__,0'' @ newline) update_text []
   \<and> inner_chunk = cookie_chunk [] inner_text []
   \<and> Unmarshal (single_env trailing_chunk) update_text Unmarshal_GSQLCookie zero_GSQLCookie
      = Inr (zero_GSQLCookie\<lparr>ClientCommit := ''updated123''\<rparr>)
   \<and> Unmarshal (single_env inner_chunk) inner_text Unmarshal_GSQLCookie zero_GSQLCookie
      = Inr (zero_GSQLCookie\<lparr>ClientCommit := ''a__,b''\<rparr>)
   \<and> Split trailing_chunk ''__,'' ! 1 = update_text @ newline @ ''__GSQL__RETURN__CODE''
   \<and> Split leading_chunk ''__,'' ! 1 = ''0'' @ newline @ ''__GSQL__COOKIES''
   \<and> Split inner_chunk ''__,'' ! 1 = ''{\"clientCommit\":\"a''
   \<and> executeCommand (single_env trailing_chunk) ''ls'' (test_session, 0, [])
      = (None, test_session, 1, [])
   \<and> executeCommand (single_env leading_chunk) ''ls'' (test_session, 0, [])
      = (None, test_session, 1, [])
   \<and> executeCommand (single_env inner_chunk) ''ls'' (test_session, 0, [])
      = (None, test_session, 1, [])
   \<and> \<not> FromGsqlClient (Cookie test_session) \<and> \<not> FromGsqlServer (Cookie test_session)"
proof -
  have f1: "trailing_chunk
     = cookie_chunk [] update_text (newline @ ''__GSQL__RETURN__CODE__,0'' @ newline)"
    by (simp add: trailing_chunk_def update_chunk_def cookie_chunk_def GSQL_COOKIES_def)
  have f2: "leading_chunk = cookie_chunk (''__GSQL__RETURN__CODE__,0'' @ newline) update_text []"
    by (simp add: leading_chunk_def update_chunk_def cookie_chunk_def GSQL_COOKIES_def)
  have f3: "inner_chunk = cookie_chunk [] inner_text []"
    by (simp add: inner_chunk_def cookie_chunk_def GSQL_COOKIES_def)
  have v1: "Unmarshal (single_env trailing_chunk) update_text Unmarshal_GSQLCookie zero_GSQLCookie
      = Inr (zero_GSQLCookie\<lparr>ClientCommit := ''updated123''\<rparr>)"
    unfolding single_env_def by (rule mock_update_text)
  have v2: "Unmarshal (single_env inner_chunk) inner_text Unmarshal_GSQLCookie zero_GSQLCookie
      = Inr (zero_GSQLCookie\<lparr>ClientCommit := ''a__,b''\<rparr>)"
    unfolding single_env_def by (rule mock_inner_text)
  have p1: "Split trailing_chunk ''__,'' ! 1 = update_text @ newline @ ''__GSQL__RETURN__CODE''"
    and p2: "Split leading_chunk ''__,'' ! 1 = ''0'' @ newline @ ''__GSQL__COOKIES''"
    and p3: "Split inner_chunk ''__,'' ! 1 = ''{\"clientCommit\":\"a''"
    by (simp_all add: unread_chunk_parts)
  have n: "trailing_chunk \<noteq> []" "leading_chunk \<noteq> []" "inner_chunk \<noteq> []"
    by (simp_all add: trailing_chunk_def leading_chunk_def inner_chunk_def update_chunk_def)
  have r1: "executeCommand (single_env trailing_chunk) ''ls'' (test_session, 0, [])
      = (None, test_session, 1, [])"
    using executeCommand_unread [OF n(1) unread_chunks_malformed(1)] by simp
  have r2: "executeCommand (single_env leading_chunk) ''ls'' (test_session, 0, [])
      = (None, test_session, 1, [])"
    using executeCommand_unread [OF n(2) unread_chunks_malformed(2)] by simp
  have r3: "executeCommand (single_env inner_chunk) ''ls'' (test_session, 0, [])
      = (None, test_session, 1, [])"
    using executeCommand_unread [OF n(3) unread_chunks_malformed(3)] by simp
  have c: "\<not> FromGsqlClient (Cookie test_session)" "\<not> FromGsqlServer (Cookie test_session)"
    by (simp_all add: test_session_def)
  show ?thesis by (intro conjI f1 f2 f3 v1 v2 p1 p2 p3 r1 r2 r3 c)
qed

text \<open>
  C5 (the code differs). A chunk without the separator that matches the pattern of a
  progress bar is written as it is. Any other chunk without the separator is written
  trimmed, and a line feed is added only when the chunk did not end with one; the
  trimming has removed a line feed at the end, so a chunk that ends with a line feed
  is shown with none: for the body \<open>[==  ] 40% (2/5)\n\<close>, \<open>done\n\<close> the output ends with
  \<open>done\<close>, where the claim has \<open>done\<close> and one line feed.
\<close>

theorem plain_chunk_loses_newline:
  "handle_chunk env (''[==  ] 40% (2/5)'' @ newline) (s, out)
     = (s, out @ ''[==  ] 40% (2/5)'' @ newline)
   \<and> handle_chunk env (''done'' @ newline) (s, out) = (s, out @ ''done'')
   \<and> executeCommand progress_env ''ls'' (test_session, 0, [])
     = (None, test_session, 1, ''[==  ] 40% (2/5)'' @ newline @ ''done'')"
proof -
  have "read_loop env [''[==  ] 40% (2/5)'' @ newline, ''done'' @ newline] (test_session, [])
          = (test_session, ''[==  ] 40% (2/5)'' @ newline @ ''done'')" for env :: "nat env"
    using progress_example [of env test_session "[]"]
      done_example [of env test_session "''[==  ] 40% (2/5)'' @ newline"]
    by simp
  then have "executeCommand
        (mock_env (\<lambda>n. Inr (streamed [''[==  ] 40% (2/5)'' @ newline, ''done'' @ newline] EOF)))
        ''ls'' (test_session, 0, [])
     = (None, test_session, 1, ''[==  ] 40% (2/5)'' @ newline @ ''done'')"
    by (simp add: executeCommand_def mock_exchange streamed_def)
  then show ?thesis
    unfolding progress_env_def using progress_example [of env s out] done_example [of env s out] by blast
qed

text \<open>
  C6 (the code differs). \<open>executeCommand\<close> returns an error only when the request cannot
  be built or sent. Once a response is there, the loop ends at the first \<open>Read\<close> that
  returns an error, whatever the error, and the function returns \<open>nil\<close>: a failure of
  the transport in the middle of the body is not distinguished from the end of the
  stream and is not reported. The mock server below sends \<open>partial output\<close> and then
  fails with \<open>unexpected EOF\<close>; the command succeeds.
\<close>

theorem executeCommand_drops_read_error:
  "fst (executeCommand env command (s, w, out)) =
     (case url_error env (Host s @ GSQL_PATH @ FILE_ENDPOINT) of
        Some err \<Rightarrow> Some err
      | None \<Rightarrow>
         (case fst (Do env w (file_request env s command)) of
            Inl err \<Rightarrow> Some err
          | Inr resp \<Rightarrow> None))
   \<and> executeCommand failing_env
        ''ls'' (test_session, 0, [])
     = (None, test_session, 1, ''partial output'' @ newline)"
proof -
  have "fst (executeCommand env command (s, w, out)) =
     (case url_error env (Host s @ GSQL_PATH @ FILE_ENDPOINT) of
        Some err \<Rightarrow> Some err
      | None \<Rightarrow>
         (case fst (Do env w (file_request env s command)) of
            Inl err \<Rightarrow> Some err
          | Inr resp \<Rightarrow> None))"
    by (simp add: executeCommand_def split: option.splits prod.splits sum.splits)
  moreover have "read_loop env [''partial output''] (test_session, [])
          = (test_session, ''partial output'' @ newline)" for env :: "nat env"
    using partial_example [of env test_session "[]"] by simp
  then have "executeCommand (mock_env (\<lambda>n. Inr (streamed [''partial output''] (IOError ''unexpected EOF''))))
        ''ls'' (test_session, 0, [])
     = (None, test_session, 1, ''partial output'' @ newline)"
    by (simp add: executeCommand_def mock_exchange streamed_def)
  ultimately show ?thesis unfolding failing_env_def by blast
qed

text \<open>
  C7. When no version is accepted, \<open>login\<close> leaves the field \<open>Version\<close>, and every other
  field but \<open>Cookie\<close>, as it was; \<open>Cookie\<close> is not restored: it is the cookie \<open>login\<close>
  set for the last entry it tried, that entry's commit with the flags false, false, true
  and false.
\<close>

theorem login_failure_frame:
  assumes "range_order versionCommits kvs"
    and "login env kvs (s, w, out) = (Some err, (s', w', out'), tried)"
  shows "Version s' = Version s \<and> Cookie s' = login_cookie (snd (last kvs))
         \<and> s' = s\<lparr>Cookie := login_cookie (snd (last kvs))\<rparr>"
  using login_error [OF assms(2)] range_order_nonempty [OF assms(1)] by simp

theorem login_failure_frame_witness:
  "range_order versionCommits versionCommits_literal
   \<and> login incompatible_env versionCommits_literal (test_session, 0, []) =
     (Some (Errorf ''unable to establish compatible connection''),
      (test_session\<lparr>Cookie := login_cookie ''c90ec746a7e77ef5b108554be2133dfd1e1ab1b2''\<rparr>,
       17, []),
      versionCommits_literal)
   \<and> Version (test_session\<lparr>Cookie := login_cookie ''c90ec746a7e77ef5b108554be2133dfd1e1ab1b2''\<rparr>)
       = Version test_session
   \<and> Cookie (test_session\<lparr>Cookie := login_cookie ''c90ec746a7e77ef5b108554be2133dfd1e1ab1b2''\<rparr>)
       = login_cookie (snd (last versionCommits_literal))"
  using login_failure_frame [OF range_order_literal login_incompatible_literal]
    range_order_literal login_incompatible_literal
  by simp

text \<open>
  The cookie is not what it was: the session of the tests starts with the commit
  \<open>abc123\<close> and ends, after the mock server has rejected every version, with the commit
  of version 3.0.0.
\<close>

theorem login_failure_cookie_counterexample:
  "fst (login incompatible_env versionCommits_literal (test_session, 0, []))
     = Some (Errorf ''unable to establish compatible connection'')
   \<and> ClientCommit (Cookie test_session) = ''abc123''
   \<and> ClientCommit (Cookie (fst (fst (snd
        (login incompatible_env versionCommits_literal (test_session, 0, []))))))
     = ''c90ec746a7e77ef5b108554be2133dfd1e1ab1b2''
   \<and> Cookie (fst (fst (snd (login incompatible_env versionCommits_literal (test_session, 0, [])))))
     \<noteq> Cookie test_session"
proof -
  have "ClientCommit (Cookie test_session) = ''abc123''"
    by (simp add: test_session_def)
  moreover have "ClientCommit (login_cookie ''c90ec746a7e77ef5b108554be2133dfd1e1ab1b2'')
      = ''c90ec746a7e77ef5b108554be2133dfd1e1ab1b2''"
    by (simp add: login_cookie_def)
  moreover have "login_cookie ''c90ec746a7e77ef5b108554be2133dfd1e1ab1b2'' \<noteq> Cookie test_session"
    by (simp add: login_cookie_def test_session_def)
  ultimately show ?thesis
    by (simp add: login_incompatible_literal)
qed

text \<open>
  C8. A line that, trimmed, is exactly \<open>Quit\<close>, \<open>quit\<close> or \<open>exit\<close> ends the loop: the
  session and the world are as before, so nothing was sent, and the rest of the input is
  not read. A line that is empty when trimmed changes nothing and the loop asks again.
  Every other line, also \<open>quit\<close> or \<open>exit\<close> in another letter case, is passed trimmed
  to \<open>executeCommand\<close>; an error it returns is printed and the loop goes on.
\<close>

theorem interactive_line:
  "(TrimSpace line \<in> {''Quit'', ''quit'', ''exit''} \<longrightarrow>
      startInteractiveSession env ((line, None) # input) (s, w, out)
        = Some (s, w, out @ ''GSQL > '' @ ''Goodbye!'' @ newline))
   \<and> (TrimSpace line = [] \<longrightarrow>
      startInteractiveSession env ((line, None) # input) (s, w, out)
        = startInteractiveSession env input (s, w, out @ ''GSQL > ''))
   \<and> (TrimSpace line \<notin> {''Quit'', ''quit'', ''exit'', []} \<longrightarrow>
      startInteractiveSession env ((line, None) # input) (s, w, out)
        = (case executeCommand env (TrimSpace line) (s, w, out @ ''GSQL > '') of
             (None, st') \<Rightarrow> startInteractiveSession env input st'
           | (Some err, s', w', out') \<Rightarrow>
               startInteractiveSession env input
                 (s', w', out' @ ''Error executing command: '' @ error_text err @ newline)))
   \<and> (startInteractiveSession env input st \<noteq> None) =
       (\<exists>l. (l, None) \<in> set input \<and> TrimSpace l \<in> {''Quit'', ''quit'', ''exit''})"
proof (intro conjI impI)
  assume "TrimSpace line \<in> {''Quit'', ''quit'', ''exit''}"
  then show "startInteractiveSession env ((line, None) # input) (s, w, out)
        = Some (s, w, out @ ''GSQL > '' @ ''Goodbye!'' @ newline)"
    by (auto simp: handle_line_def)
next
  assume "TrimSpace line = []"
  then show "startInteractiveSession env ((line, None) # input) (s, w, out)
        = startInteractiveSession env input (s, w, out @ ''GSQL > '')"
    by (simp add: handle_line_def)
next
  assume other: "TrimSpace line \<notin> {''Quit'', ''quit'', ''exit'', []}"
  obtain res s' w' out' where
    run: "executeCommand env (TrimSpace line) (s, w, out @ ''GSQL > '') = (res, s', w', out')"
    by (metis prod_cases4)
  show "startInteractiveSession env ((line, None) # input) (s, w, out)
        = (case executeCommand env (TrimSpace line) (s, w, out @ ''GSQL > '') of
             (None, st') \<Rightarrow> startInteractiveSession env input st'
           | (Some err, s', w', out') \<Rightarrow>
               startInteractiveSession env input
                 (s', w', out' @ ''Error executing command: '' @ error_text err @ newline))"
    using other run by (cases res) (simp_all add: handle_line_def)
next
  show "(startInteractiveSession env input st \<noteq> None) =
       (\<exists>l. (l, None) \<in> set input \<and> TrimSpace l \<in> {''Quit'', ''quit'', ''exit''})"
    by (rule session_ends_iff)
qed

theorem interactive_line_witness:
  "TrimSpace (''  Quit '' @ newline) \<in> {''Quit'', ''quit'', ''exit''}
   \<and> startInteractiveSession echo_env [(''  Quit '' @ newline, None), (''ls'' @ newline, None)]
        (test_session, 0, [])
       = Some (test_session, 0, ''GSQL > Goodbye!'' @ newline)
   \<and> TrimSpace (''   '' @ newline) = []
   \<and> startInteractiveSession echo_env [(''   '' @ newline, None), (''quit'' @ newline, None)]
        (test_session, 0, [])
       = Some (test_session, 0, ''GSQL > GSQL > Goodbye!'' @ newline)
   \<and> TrimSpace (''ls'' @ newline) \<notin> {''Quit'', ''quit'', ''exit'', []}
   \<and> startInteractiveSession echo_env [(''ls'' @ newline, None), (''quit'' @ newline, None)]
        (test_session, 0, [])
       = Some (test_session, 1,
               ''GSQL > Command output'' @ newline @ ''GSQL > Goodbye!'' @ newline)"
proof -
  have q: "TrimSpace (''  Quit '' @ newline) \<in> {''Quit'', ''quit'', ''exit''}"
    by (simp add: example_lines [simplified])
  have q': "TrimSpace (''quit'' @ newline) \<in> {''Quit'', ''quit'', ''exit''}"
    by (simp add: example_lines [simplified])
  have b: "TrimSpace (''   '' @ newline) = []"
    by (simp add: example_lines [simplified])
  have c: "TrimSpace (''ls'' @ newline) \<notin> {''Quit'', ''quit'', ''exit'', []}"
    by (simp add: example_lines [simplified])
  have stop: "startInteractiveSession echo_env [(''quit'' @ newline, None)] (s, n, out)
                = Some (s, n, out @ ''GSQL > '' @ ''Goodbye!'' @ newline)" for s n out
    by (rule interactive_line [of "''quit'' @ newline" echo_env "[]" s n out,
          THEN conjunct1, THEN mp, OF q'])
  have "startInteractiveSession echo_env [(''  Quit '' @ newline, None), (''ls'' @ newline, None)]
        (test_session, 0, [])
       = Some (test_session, 0, [] @ ''GSQL > '' @ ''Goodbye!'' @ newline)"
    by (rule interactive_line [of "''  Quit '' @ newline" echo_env "[(''ls'' @ newline, None)]"
          test_session 0 "[]", THEN conjunct1, THEN mp, OF q])
  then have r1: "startInteractiveSession echo_env
        [(''  Quit '' @ newline, None), (''ls'' @ newline, None)] (test_session, 0, [])
       = Some (test_session, 0, ''GSQL > Goodbye!'' @ newline)"
    by (simp del: startInteractiveSession.simps)
  have "startInteractiveSession echo_env [(''   '' @ newline, None), (''quit'' @ newline, None)]
        (test_session, 0, [])
       = startInteractiveSession echo_env [(''quit'' @ newline, None)]
           (test_session, 0, [] @ ''GSQL > '')"
    by (rule interactive_line [of "''   '' @ newline" echo_env "[(''quit'' @ newline, None)]"
          test_session 0 "[]", THEN conjunct2, THEN conjunct1, THEN mp, OF b])
  then have r2: "startInteractiveSession echo_env
        [(''   '' @ newline, None), (''quit'' @ newline, None)] (test_session, 0, [])
       = Some (test_session, 0, ''GSQL > GSQL > Goodbye!'' @ newline)"
    by (simp add: stop [unfolded append_Cons append_Nil] del: startInteractiveSession.simps)
  have "startInteractiveSession echo_env [(''ls'' @ newline, None), (''quit'' @ newline, None)]
        (test_session, 0, [])
       = (case executeCommand echo_env (TrimSpace (''ls'' @ newline))
                 (test_session, 0, [] @ ''GSQL > '') of
            (None, st') \<Rightarrow> startInteractiveSession echo_env [(''quit'' @ newline, None)] st'
          | (Some err, s', w', out') \<Rightarrow>
              startInteractiveSession echo_env [(''quit'' @ newline, None)]
                (s', w', out' @ ''Error executing command: '' @ error_text err @ newline))"
    by (rule interactive_line [of "''ls'' @ newline" echo_env "[(''quit'' @ newline, None)]"
          test_session 0 "[]", THEN conjunct2, THEN conjunct2, THEN conjunct1, THEN mp, OF c])
  then have r3: "startInteractiveSession echo_env
        [(''ls'' @ newline, None), (''quit'' @ newline, None)] (test_session, 0, [])
       = Some (test_session, 1,
               ''GSQL > Command output'' @ newline @ ''GSQL > Goodbye!'' @ newline)"
    by (simp add: executeCommand_echo example_lines [simplified]
        stop [unfolded append_Cons append_Nil] del: startInteractiveSession.simps)
  show ?thesis by (intro conjI q r1 b r2 c r3)
qed

text \<open>
  The words are not recognised in every letter case: \<open>QUIT\<close> and \<open>Exit\<close> are sent to the
  server as commands (the mock server has seen two requests and its output is shown
  twice), and the loop goes on until \<open>quit\<close> is read.
\<close>

theorem quit_case_counterexample:
  "TrimSpace (''QUIT'' @ newline) = ''QUIT'' \<and> TrimSpace (''Exit'' @ newline) = ''Exit''
   \<and> handle_line echo_env (''QUIT'' @ newline) (test_session, 0, [])
       = Continue (test_session, 1, ''Command output'' @ newline)
   \<and> handle_line echo_env (''Exit'' @ newline) (test_session, 0, [])
       = Continue (test_session, 1, ''Command output'' @ newline)
   \<and> startInteractiveSession echo_env
        [(''QUIT'' @ newline, None), (''Exit'' @ newline, None), (''quit'' @ newline, None)]
        (test_session, 0, [])
       = Some (test_session, 2,
               ''GSQL > Command output'' @ newline @ ''GSQL > Command output'' @ newline
               @ ''GSQL > Goodbye!'' @ newline)
   \<and> startInteractiveSession echo_env
        [(''QUIT'' @ newline, None), (''Exit'' @ newline, None)] (test_session, 0, []) = None"
  by (simp add: handle_line_def example_lines [simplified] executeCommand_echo)

text \<open>
  C9. For a cookie whose three strings are valid UTF-8, the value \<open>json.Marshal\<close> writes
  is stored back by \<open>json.Unmarshal\<close>, into a fresh struct, as the same cookie, field by
  field; the same holds for the texts, with a library that reads back the value it has
  written. Each of the two affinity fields is a member of the written object exactly
  when it is not empty, so an empty one is left out and never written as an empty
  string. For a string that is not valid UTF-8 the written value differs, see below.
\<close>

theorem cookie_roundtrip:
  assumes "ValidString (ClientCommit c)" and "ValidString (ApplicationGatewayAffinity c)"
    and "ValidString (ApplicationGatewayAffinityCORS c)"
  shows "Unmarshal_GSQLCookie (Marshal_GSQLCookie c) zero_GSQLCookie = Inr c
         \<and> (json_value env (json_text env (Marshal_GSQLCookie c)) = Inr (Marshal_GSQLCookie c) \<longrightarrow>
              Unmarshal env (json_text env (Marshal_GSQLCookie c)) Unmarshal_GSQLCookie
                zero_GSQLCookie = Inr c)
         \<and> (''ApplicationGatewayAffinity'' \<in> set (object_keys (Marshal_GSQLCookie c)))
              = (ApplicationGatewayAffinity c \<noteq> [])
         \<and> (''ApplicationGatewayAffinityCORS'' \<in> set (object_keys (Marshal_GSQLCookie c)))
              = (ApplicationGatewayAffinityCORS c \<noteq> [])
         \<and> (''ApplicationGatewayAffinity'', JString [])
              \<notin> set (case Marshal_GSQLCookie c of JObject ms \<Rightarrow> ms | _ \<Rightarrow> [])
         \<and> (''ApplicationGatewayAffinityCORS'', JString [])
              \<notin> set (case Marshal_GSQLCookie c of JObject ms \<Rightarrow> ms | _ \<Rightarrow> [])"
proof -
  have stored: "Unmarshal_GSQLCookie (Marshal_GSQLCookie c) zero_GSQLCookie = Inr c"
    using assms by (rule roundtrip_value)
  then have "json_value env (json_text env (Marshal_GSQLCookie c)) = Inr (Marshal_GSQLCookie c) \<longrightarrow>
      Unmarshal env (json_text env (Marshal_GSQLCookie c)) Unmarshal_GSQLCookie zero_GSQLCookie
        = Inr c"
    by (simp add: Unmarshal_def)
  moreover have "(''ApplicationGatewayAffinity'' \<in> set (object_keys (Marshal_GSQLCookie c)))
              = (ApplicationGatewayAffinity c \<noteq> [])"
    by (simp add: Marshal_GSQLCookie_def omitempty_def)
  moreover have "(''ApplicationGatewayAffinityCORS'' \<in> set (object_keys (Marshal_GSQLCookie c)))
              = (ApplicationGatewayAffinityCORS c \<noteq> [])"
    by (simp add: Marshal_GSQLCookie_def omitempty_def)
  moreover have "(''ApplicationGatewayAffinity'', JString [])
              \<notin> set (case Marshal_GSQLCookie c of JObject ms \<Rightarrow> ms | _ \<Rightarrow> [])"
    using coerce_nonempty [of "ApplicationGatewayAffinity c"]
    by (auto simp: Marshal_GSQLCookie_def omitempty_def)
  moreover have "(''ApplicationGatewayAffinityCORS'', JString [])
              \<notin> set (case Marshal_GSQLCookie c of JObject ms \<Rightarrow> ms | _ \<Rightarrow> [])"
    using coerce_nonempty [of "ApplicationGatewayAffinityCORS c"]
    by (auto simp: Marshal_GSQLCookie_def omitempty_def)
  ultimately show ?thesis using stored by (intro conjI)
qed

theorem cookie_roundtrip_witness:
  "ValidString (ClientCommit (Cookie test_session))
   \<and> ValidString (ApplicationGatewayAffinity (Cookie test_session))
   \<and> ValidString (ApplicationGatewayAffinityCORS (Cookie test_session))
   \<and> Unmarshal_GSQLCookie (Marshal_GSQLCookie (Cookie test_session)) zero_GSQLCookie
       = Inr (Cookie test_session)
   \<and> json_value echo_env (json_text echo_env (Marshal_GSQLCookie (Cookie test_session)))
       = Inr (Marshal_GSQLCookie (Cookie test_session))
   \<and> Unmarshal echo_env
        (json_text echo_env (Marshal_GSQLCookie (Cookie test_session)))
        Unmarshal_GSQLCookie zero_GSQLCookie = Inr (Cookie test_session)
   \<and> ApplicationGatewayAffinity (Cookie test_session) = []
   \<and> ''ApplicationGatewayAffinity'' \<notin> set (object_keys (Marshal_GSQLCookie (Cookie test_session)))
   \<and> object_keys (Marshal_GSQLCookie (Cookie test_session))
       = [''clientCommit'', ''fromGsqlClient'', ''fromGraphStudio'', ''gShellTest'',
          ''fromGsqlServer'']"
proof -
  have v1: "ValidString (ClientCommit (Cookie test_session))"
    by (simp add: test_session_def session_cookie_valid)
  have v2: "ValidString (ApplicationGatewayAffinity (Cookie test_session))"
    by (simp add: test_session_def session_cookie_valid)
  have v3: "ValidString (ApplicationGatewayAffinityCORS (Cookie test_session))"
    by (simp add: test_session_def session_cookie_valid)
  note run = cookie_roundtrip [OF v1 v2 v3, of echo_env]
  have r1: "Unmarshal_GSQLCookie (Marshal_GSQLCookie (Cookie test_session)) zero_GSQLCookie
       = Inr (Cookie test_session)"
    using run by (rule conjunct1)
  have t1: "json_value echo_env
        (json_text echo_env (Marshal_GSQLCookie (Cookie test_session)))
       = Inr (Marshal_GSQLCookie (Cookie test_session))"
    by (simp add: echo_env_def mock_env_def session_cookie_written session_cookie_read)
  have r2: "Unmarshal echo_env
        (json_text echo_env (Marshal_GSQLCookie (Cookie test_session)))
        Unmarshal_GSQLCookie zero_GSQLCookie = Inr (Cookie test_session)"
    using run t1 by blast
  have e: "ApplicationGatewayAffinity (Cookie test_session) = []"
    by (simp add: test_session_def)
  have r3: "''ApplicationGatewayAffinity'' \<notin> set (object_keys (Marshal_GSQLCookie (Cookie test_session)))"
    using run e by blast
  have k: "object_keys (Marshal_GSQLCookie (Cookie test_session))
       = [''clientCommit'', ''fromGsqlClient'', ''fromGraphStudio'', ''gShellTest'',
          ''fromGsqlServer'']"
    by (simp add: test_session_def Marshal_GSQLCookie_def omitempty_def)
  show ?thesis by (intro conjI v1 v2 v3 r1 t1 r2 e r3 k)
qed

text \<open>
  A string that is not valid UTF-8 does not come back: the byte \<open>FF\<close> is written as
  U+FFFD, the bytes \<open>EF BF BD\<close>, which is what is read.
\<close>

theorem cookie_roundtrip_counterexample:
  "Marshal_GSQLCookie invalid_cookie =
     JObject [(''clientCommit'', JString [CHR 0xEF, CHR 0xBF, CHR 0xBD]),
              (''fromGsqlClient'', JBool False), (''fromGraphStudio'', JBool False),
              (''gShellTest'', JBool False), (''fromGsqlServer'', JBool False)]
   \<and> Unmarshal_GSQLCookie (Marshal_GSQLCookie invalid_cookie) zero_GSQLCookie
       = Inr (zero_GSQLCookie\<lparr>ClientCommit := [CHR 0xEF, CHR 0xBF, CHR 0xBD]\<rparr>)
   \<and> Unmarshal_GSQLCookie (Marshal_GSQLCookie invalid_cookie) zero_GSQLCookie
       \<noteq> Inr invalid_cookie"
proof -
  have "coerce_utf8 [CHR 0xFF] = [CHR 0xEF, CHR 0xBF, CHR 0xBD]"
    by code_simp
  then have written: "Marshal_GSQLCookie invalid_cookie =
     JObject [(''clientCommit'', JString [CHR 0xEF, CHR 0xBF, CHR 0xBD]),
              (''fromGsqlClient'', JBool False), (''fromGraphStudio'', JBool False),
              (''gShellTest'', JBool False), (''fromGsqlServer'', JBool False)]"
    by (simp add: Marshal_GSQLCookie_def invalid_cookie_def zero_GSQLCookie_def omitempty_def)
  have "Unmarshal_GSQLCookie (Marshal_GSQLCookie invalid_cookie) zero_GSQLCookie
       = Inr (zero_GSQLCookie\<lparr>ClientCommit := [CHR 0xEF, CHR 0xBF, CHR 0xBD]\<rparr>)"
    by (simp add: written Unmarshal_GSQLCookie_def store_struct_def store_fields
        zero_GSQLCookie_def)
  moreover have "zero_GSQLCookie\<lparr>ClientCommit := [CHR 0xEF, CHR 0xBF, CHR 0xBD]\<rparr> \<noteq> invalid_cookie"
    by (simp add: invalid_cookie_def zero_GSQLCookie_def)
  ultimately show ?thesis using written by simp
qed

text \<open>
  C10. A cookie that cannot be decoded changes nothing and is not reported. In
  \<open>attemptLogin\<close>, when the response is accepted and the value of the \<open>Set-Cookie\<close>
  header does not decode to a cookie, the attempt succeeds, the session is the session
  before it and nothing but the welcome message is written; whatever the response, the
  session after the attempt is the session before it. In \<open>executeCommand\<close>, a chunk with
  the marker is ignored (\<open>malformed_update\<close>) when the delimiter of the marker is the
  first \<open>__,\<close> of the chunk and the payload, up to the next \<open>__,\<close> or the end of the chunk,
  does not decode, and when the chunk has no \<open>__,\<close> at all; in general, when the second
  piece of the chunk split at \<open>__,\<close> does not decode. Such a chunk leaves the session and
  the output as they are, and the command ends as it would have without that chunk, so
  the old cookie is the one the next request carries.
\<close>

theorem malformed_cookie_ignored:
  "(url_error env (Host s @ GSQL_PATH @ LOGIN_ENDPOINT) = None \<longrightarrow>
      Do env w (login_request env s) = (Inr resp, w') \<longrightarrow>
      ReadAll (resp_Body resp) = Inr body \<longrightarrow>
      Unmarshal env body Unmarshal_loginResp zero_loginResp = Inr r \<longrightarrow>
      IsClientCompatible r \<longrightarrow> \<not> (Error r \<and> User s \<noteq> ''__GSQL__secret'') \<longrightarrow>
      isl (Unmarshal env (Get (resp_Header resp) ''Set-Cookie'') Unmarshal_GSQLCookie zero_GSQLCookie) \<longrightarrow>
      attemptLogin env version (s, w, out) = (None, s, w', out @ WelcomeMessage r @ newline))
   \<and> (Do env w (login_request env s) = (Inr resp, w') \<longrightarrow>
      isl (Unmarshal env (Get (resp_Header resp) ''Set-Cookie'') Unmarshal_GSQLCookie zero_GSQLCookie) \<longrightarrow>
      fst (snd (attemptLogin env version (s, w, out))) = s)
   \<and> (delimited pre payload rest \<longrightarrow>
        isl (Unmarshal env payload Unmarshal_GSQLCookie zero_GSQLCookie) \<longrightarrow>
        malformed_update env (cookie_chunk pre payload rest)
        \<and> handle_chunk env (cookie_chunk pre payload rest) (s, out) = (s, out))
   \<and> (Contains data GSQL_COOKIES \<longrightarrow> \<not> Contains data ''__,'' \<longrightarrow>
        malformed_update env data \<and> handle_chunk env data (s, out) = (s, out))
   \<and> (malformed_update env data \<longrightarrow> handle_chunk env data (s, out) = (s, out))
   \<and> (malformed_update env data \<longrightarrow>
        url_error env (Host s @ GSQL_PATH @ FILE_ENDPOINT) = None \<longrightarrow>
        Do env w (file_request env s command) = (Inr resp2, w2) \<longrightarrow>
        reads (resp_Body resp2) = before @ data # after \<longrightarrow>
        executeCommand env command (s, w, out) =
          (case read_loop env (before @ after) (s, out) of (s', out') \<Rightarrow> (None, s', w2, out')))"
proof (intro conjI impI)
  assume "url_error env (Host s @ GSQL_PATH @ LOGIN_ENDPOINT) = None"
    and "Do env w (login_request env s) = (Inr resp, w')"
    and "ReadAll (resp_Body resp) = Inr body"
    and "Unmarshal env body Unmarshal_loginResp zero_loginResp = Inr r"
    and "IsClientCompatible r" and "\<not> (Error r \<and> User s \<noteq> ''__GSQL__secret'')"
    and "isl (Unmarshal env (Get (resp_Header resp) ''Set-Cookie'') Unmarshal_GSQLCookie zero_GSQLCookie)"
  then show "attemptLogin env version (s, w, out) = (None, s, w', out @ WelcomeMessage r @ newline)"
    by (rule attemptLogin_welcome_malformed)
next
  assume "Do env w (login_request env s) = (Inr resp, w')"
    and "isl (Unmarshal env (Get (resp_Header resp) ''Set-Cookie'') Unmarshal_GSQLCookie zero_GSQLCookie)"
  then show "fst (snd (attemptLogin env version (s, w, out))) = s"
    by (rule attemptLogin_malformed_cookie)
next
  assume "delimited pre payload rest"
    and "isl (Unmarshal env payload Unmarshal_GSQLCookie zero_GSQLCookie)"
  then show bad: "malformed_update env (cookie_chunk pre payload rest)"
    by (rule delimited_malformed)
  show "handle_chunk env (cookie_chunk pre payload rest) (s, out) = (s, out)"
    using bad by (rule malformed_update_ignored)
next
  assume "Contains data GSQL_COOKIES" and "\<not> Contains data ''__,''"
  then show bad: "malformed_update env data"
    by (rule no_delimiter_malformed)
  show "handle_chunk env data (s, out) = (s, out)"
    using bad by (rule malformed_update_ignored)
next
  assume "malformed_update env data"
  then show "handle_chunk env data (s, out) = (s, out)"
    by (rule malformed_update_ignored)
next
  assume "malformed_update env data"
    and "url_error env (Host s @ GSQL_PATH @ FILE_ENDPOINT) = None"
    and "Do env w (file_request env s command) = (Inr resp2, w2)"
    and "reads (resp_Body resp2) = before @ data # after"
  then show "executeCommand env command (s, w, out) =
          (case read_loop env (before @ after) (s, out) of (s', out') \<Rightarrow> (None, s', w2, out'))"
    by (rule without_malformed_chunk)
qed

theorem malformed_cookie_ignored_witness:
  "url_error broken_login_env (Host test_session @ GSQL_PATH @ LOGIN_ENDPOINT) = None
   \<and> Do broken_login_env 0 (login_request broken_login_env test_session)
     = (Inr (with_cookie ''{\"clientCommit\":'' (streamed [welcome_text] EOF)), 1)
   \<and> ReadAll (resp_Body (with_cookie ''{\"clientCommit\":'' (streamed [welcome_text] EOF)))
     = Inr welcome_text
   \<and> Unmarshal broken_login_env welcome_text Unmarshal_loginResp zero_loginResp
     = Inr \<lparr>IsClientCompatible = True, Error = False, Message = ''Login successful'',
            WelcomeMessage = ''Welcome to GSQL''\<rparr>
   \<and> isl (Unmarshal broken_login_env
            (Get (resp_Header (with_cookie ''{\"clientCommit\":'' (streamed [welcome_text] EOF))) ''Set-Cookie'')
            Unmarshal_GSQLCookie zero_GSQLCookie)
   \<and> attemptLogin broken_login_env ''3.6.2'' (test_session, 0, [])
       = (None, test_session, 1, ''Welcome to GSQL'' @ newline)
   \<and> broken_chunk = cookie_chunk [] ''{\"clientCommit\":'' []
   \<and> delimited [] ''{\"clientCommit\":'' []
   \<and> isl (Unmarshal broken_chunk_env ''{\"clientCommit\":'' Unmarshal_GSQLCookie zero_GSQLCookie)
   \<and> malformed_update broken_chunk_env broken_chunk
   \<and> handle_chunk broken_chunk_env broken_chunk (test_session, []) = (test_session, [])
   \<and> url_error broken_chunk_env (Host test_session @ GSQL_PATH @ FILE_ENDPOINT) = None
   \<and> Do broken_chunk_env 0 (file_request broken_chunk_env test_session ''ls'')
      = (Inr (streamed [''Command output'', broken_chunk] EOF), 1)
   \<and> reads (resp_Body (streamed [''Command output'', broken_chunk] EOF))
      = [''Command output''] @ broken_chunk # []
   \<and> executeCommand broken_chunk_env ''ls'' (test_session, 0, [])
       = (None, test_session, 1, ''Command output'' @ newline)
   \<and> Contains bare_chunk GSQL_COOKIES \<and> \<not> Contains bare_chunk ''__,''
   \<and> handle_chunk broken_chunk_env bare_chunk (test_session, []) = (test_session, [])"
proof -
  let ?resp = "with_cookie ''{\"clientCommit\":'' (streamed [welcome_text] EOF)"
  let ?e1 = "mock_env (\<lambda>n. Inr ?resp)"
  let ?e2 = "mock_env (\<lambda>n. Inr (streamed [''Command output'', broken_chunk] EOF))"
  let ?r = "\<lparr>IsClientCompatible = True, Error = False, Message = ''Login successful'',
            WelcomeMessage = ''Welcome to GSQL''\<rparr>"
  note at_login = malformed_cookie_ignored [where env = ?e1 and w = 0 and s = test_session
      and resp = ?resp and w' = 1 and version = "''3.6.2''" and out = "[]"
      and body = welcome_text and r = ?r, THEN conjunct1]
  note in_words = malformed_cookie_ignored [where env = ?e2 and pre = "[]"
      and payload = "''{\"clientCommit\":''" and rest = "[]",
      THEN conjunct2, THEN conjunct2, THEN conjunct1]
  note bare = malformed_cookie_ignored [where env = ?e2 and data = bare_chunk
      and s = test_session and out = "[]"]
  note at_command = malformed_cookie_ignored [where env = ?e2 and w = 0 and s = test_session
      and out = "[]" and data = broken_chunk and command = "''ls''"
      and ?resp2.0 = "streamed [''Command output'', broken_chunk] EOF" and ?w2.0 = 1
      and before = "[''Command output'']" and after = "[]"]
  have a0: "url_error ?e1 (Host test_session @ GSQL_PATH @ LOGIN_ENDPOINT) = None"
    by (simp add: mock_env_def)
  have a1: "Do ?e1 0 (login_request ?e1 test_session) = (Inr ?resp, 1)"
    by (simp add: mock_env_def)
  have a2: "ReadAll (resp_Body ?resp) = Inr welcome_text"
    by (simp add: with_cookie_def streamed_def ReadAll_def)
  have a3: "Unmarshal ?e1 welcome_text Unmarshal_loginResp zero_loginResp = Inr ?r"
    by (rule mock_welcome_text)
  have a4: "isl (Unmarshal ?e1 (Get (resp_Header ?resp) ''Set-Cookie'')
            Unmarshal_GSQLCookie zero_GSQLCookie)"
    by (simp add: with_cookie_def Get_def mock_broken)
  have c1: "attemptLogin ?e1 ''3.6.2'' (test_session, 0, [])
       = (None, test_session, 1, ''Welcome to GSQL'' @ newline)"
    using at_login a0 a1 a2 a3 a4 by (simp add: test_session_def)
  have w1: "broken_chunk = cookie_chunk [] ''{\"clientCommit\":'' []"
    by (simp add: broken_chunk_def cookie_chunk_def GSQL_COOKIES_def)
  have w2: "delimited [] ''{\"clientCommit\":'' []"
    by (simp add: delimited_def)
  have w3: "isl (Unmarshal ?e2 ''{\"clientCommit\":'' Unmarshal_GSQLCookie zero_GSQLCookie)"
    by (rule mock_broken)
  have b1: "malformed_update ?e2 broken_chunk"
    using in_words w2 w3 unfolding w1 by blast
  have c2: "handle_chunk ?e2 broken_chunk (test_session, []) = (test_session, [])"
    using at_command b1 by blast
  have b2: "url_error ?e2 (Host test_session @ GSQL_PATH @ FILE_ENDPOINT) = None"
    by (simp add: mock_env_def)
  have b3: "Do ?e2 0 (file_request ?e2 test_session ''ls'')
      = (Inr (streamed [''Command output'', broken_chunk] EOF), 1)"
    by (simp add: mock_env_def)
  have b4: "reads (resp_Body (streamed [''Command output'', broken_chunk] EOF))
      = [''Command output''] @ broken_chunk # []"
    by (simp add: streamed_def)
  have "executeCommand ?e2 ''ls'' (test_session, 0, []) =
          (case read_loop ?e2 ([''Command output''] @ []) (test_session, []) of
             (s', out') \<Rightarrow> (None, s', 1, out'))"
    using at_command b1 b2 b3 b4 by blast
  then have c3: "executeCommand ?e2 ''ls'' (test_session, 0, [])
                   = (None, test_session, 1, ''Command output'' @ newline)"
    by (simp add: handle_chunk_def GSQL_SEPARATOR_def plain_chunks HasSuffix_rev)
  have d1: "Contains bare_chunk GSQL_COOKIES" and d2: "\<not> Contains bare_chunk ''__,''"
    by (rule unread_chunk_markers)+
  have c4: "handle_chunk ?e2 bare_chunk (test_session, []) = (test_session, [])"
    using bare d1 d2 by blast
  show ?thesis unfolding broken_login_env_def broken_chunk_env_def
    by (intro conjI a0 a1 a2 a3 a4 c1 w1 w2 w3 b1 c2 b2 b3 b4 c3 d1 d2 c4)
qed

text \<open>
  When a \<open>__,\<close> stands before the marker, the code reads the text after that one, not
  the text after the delimiter of the marker. Here a cookie stands between two earlier
  delimiters and the text after the marker is cut short: the cookie of the session is
  replaced.
\<close>

theorem earlier_delimiter_counterexample:
  "earlier_chunk = cookie_chunk (''x__,'' @ update_text @ ''__,'') ''{\"clientCommit\":'' []
   \<and> isl (Unmarshal (single_env earlier_chunk) ''{\"clientCommit\":''
            Unmarshal_GSQLCookie zero_GSQLCookie)
   \<and> Split earlier_chunk ''__,''
       = [''x'', update_text, ''__GSQL__COOKIES'', ''{\"clientCommit\":'']
   \<and> executeCommand (single_env earlier_chunk) ''ls'' (test_session, 0, [])
       = (None,
          test_session\<lparr>Cookie := \<lparr>ClientCommit = ''updated123'', FromGsqlClient = True,
             FromGraphStudio = False, GShellTest = True, FromGsqlServer = True,
             ApplicationGatewayAffinity = [], ApplicationGatewayAffinityCORS = []\<rparr>\<rparr>,
          1, [])
   \<and> ClientCommit (Cookie test_session) = ''abc123''"
proof -
  have f: "earlier_chunk = cookie_chunk (''x__,'' @ update_text @ ''__,'') ''{\"clientCommit\":'' []"
    by (simp add: earlier_chunk_def cookie_chunk_def GSQL_COOKIES_def)
  have v: "isl (Unmarshal (single_env earlier_chunk) ''{\"clientCommit\":''
            Unmarshal_GSQLCookie zero_GSQLCookie)"
    unfolding single_env_def by (rule mock_broken)
  have p: "Split earlier_chunk ''__,''
       = [''x'', update_text, ''__GSQL__COOKIES'', ''{\"clientCommit\":'']"
    by (rule unread_chunk_parts)
  have n: "earlier_chunk \<noteq> []" by (simp add: earlier_chunk_def)
  have d: "Unmarshal (single_env earlier_chunk) (Split earlier_chunk ''__,'' ! 1)
             Unmarshal_GSQLCookie zero_GSQLCookie
           = Inr (zero_GSQLCookie\<lparr>ClientCommit := ''updated123''\<rparr>)"
    unfolding single_env_def by (simp add: p mock_update_text)
  have "handle_chunk (single_env earlier_chunk) earlier_chunk (test_session, [])
      = (test_session\<lparr>Cookie := (zero_GSQLCookie\<lparr>ClientCommit := ''updated123''\<rparr>)
            \<lparr>FromGsqlClient := True, FromGraphStudio := False,
             GShellTest := True, FromGsqlServer := True\<rparr>\<rparr>, [])"
    by (rule handle_chunk_cookie [OF unread_chunk_markers(7) unread_chunk_markers(8) _ d])
       (simp add: p)
  then have r: "executeCommand (single_env earlier_chunk) ''ls'' (test_session, 0, [])
       = (None,
          test_session\<lparr>Cookie := \<lparr>ClientCommit = ''updated123'', FromGsqlClient = True,
             FromGraphStudio = False, GShellTest = True, FromGsqlServer = True,
             ApplicationGatewayAffinity = [], ApplicationGatewayAffinityCORS = []\<rparr>\<rparr>,
          1, [])"
    by (simp add: executeCommand_single [OF n] zero_GSQLCookie_def)
  have c: "ClientCommit (Cookie test_session) = ''abc123''"
    by (simp add: test_session_def)
  show ?thesis by (intro conjI f v p r c)
qed

end
